theory Spec2Isabelle
  imports Complex_Main
begin

section \<open>Python values\<close>

text \<open>
  The descriptors of \<^verbatim>\<open>guidata/dataset/dataitems.py\<close> are Python 2 code (the module uses
  \<^verbatim>\<open>unicode\<close>), so the values they validate are Python 2 objects. A float is a finite
  number, an infinity or NaN; the finite ones are rationals, which is all that the
  comparisons of the validation code look at. \<^verbatim>\<open>int\<close> (a machine integer) and
  \<^verbatim>\<open>long\<close> are different types, and \<^verbatim>\<open>bool\<close> is a subclass of \<^verbatim>\<open>int\<close>.

  Python tests containment and compares the elements of sequences with \<^verbatim>\<open>is\<close> before
  \<^verbatim>\<open>==\<close>. Every value but NaN equals itself, so which object holds a value shows for
  NaN only: a NaN carries the identity of its object, and \<open>NaN m\<close> and \<open>NaN n\<close> are
  the same object exactly when \<open>m = n\<close>.
\<close>

datatype pyfloat = Finite rat | PosInf | NegInf | NaN nat

datatype pyval =
    PNone
  | PBool bool
  | PInt int
  | PLong int
  | PFloat pyfloat
  | PStr string
  | PUnicode string
  | PTuple "pyval list"
  | PList "pyval list"
  | PCallable nat
  | PItemProperty pyval
  | PFirstChoice

datatype pyexc =
    TypeError | ValueError | IndexError | KeyError | AssertionError | NameError
  | SyntaxError | ZeroDivisionError | OverflowError | AttributeError | IOError

text \<open>Truth value testing (\<^verbatim>\<open>not value\<close>, \<^verbatim>\<open>a and b\<close>).\<close>

fun truthy :: "pyval \<Rightarrow> bool" where
  "truthy PNone = False"
| "truthy (PBool b) = b"
| "truthy (PInt i) = (i \<noteq> 0)"
| "truthy (PLong i) = (i \<noteq> 0)"
| "truthy (PFloat f) = (f \<noteq> Finite 0)"
| "truthy (PStr s) = (s \<noteq> [])"
| "truthy (PUnicode s) = (s \<noteq> [])"
| "truthy (PTuple xs) = (xs \<noteq> [])"
| "truthy (PList xs) = (xs \<noteq> [])"
| "truthy (PCallable f) = True"
| "truthy (PItemProperty f) = True"
| "truthy PFirstChoice = True"

text \<open>The number a numeric object stands for; \<^verbatim>\<open>True\<close> is 1 and \<^verbatim>\<open>False\<close> is 0.\<close>

fun as_number :: "pyval \<Rightarrow> pyfloat option" where
  "as_number (PBool b) = Some (Finite (if b then 1 else 0))"
| "as_number (PInt i) = Some (Finite (of_int i))"
| "as_number (PLong i) = Some (Finite (of_int i))"
| "as_number (PFloat f) = Some f"
| "as_number v = None"

text \<open>IEEE comparisons: every comparison with NaN is false.\<close>

fun fl_lt :: "pyfloat \<Rightarrow> pyfloat \<Rightarrow> bool" where
  "fl_lt (NaN n) y = False"
| "fl_lt x (NaN n) = False"
| "fl_lt (Finite a) (Finite b) = (a < b)"
| "fl_lt (Finite a) PosInf = True"
| "fl_lt (Finite a) NegInf = False"
| "fl_lt PosInf y = False"
| "fl_lt NegInf (Finite b) = True"
| "fl_lt NegInf PosInf = True"
| "fl_lt NegInf NegInf = False"

fun fl_eq :: "pyfloat \<Rightarrow> pyfloat \<Rightarrow> bool" where
  "fl_eq (Finite a) (Finite b) = (a = b)"
| "fl_eq PosInf PosInf = True"
| "fl_eq NegInf NegInf = True"
| "fl_eq x y = False"

definition fl_le :: "pyfloat \<Rightarrow> pyfloat \<Rightarrow> bool" where
  "fl_le x y = (fl_lt x y \<or> fl_eq x y)"

definition fl_is_nan :: "pyfloat \<Rightarrow> bool" where
  "fl_is_nan x = (case x of NaN n \<Rightarrow> True | _ \<Rightarrow> False)"

text \<open>
  \<^verbatim>\<open>value < other\<close>, \<^verbatim>\<open>value > other\<close>, \<^verbatim>\<open>value >= other\<close> and \<^verbatim>\<open>value <= other\<close>
  for a number on the left. Two numbers are compared by value, whatever their types.
  Python 2 orders a number before every object that is neither a number nor
  \<^verbatim>\<open>None\<close>, and after \<^verbatim>\<open>None\<close>.
\<close>

definition num_lt :: "pyfloat \<Rightarrow> pyval \<Rightarrow> bool" where
  "num_lt x other = (case as_number other of Some y \<Rightarrow> fl_lt x y | None \<Rightarrow> other \<noteq> PNone)"

definition num_gt :: "pyfloat \<Rightarrow> pyval \<Rightarrow> bool" where
  "num_gt x other = (case as_number other of Some y \<Rightarrow> fl_lt y x | None \<Rightarrow> other = PNone)"

definition num_ge :: "pyfloat \<Rightarrow> pyval \<Rightarrow> bool" where
  "num_ge x other = (case as_number other of Some y \<Rightarrow> fl_le y x | None \<Rightarrow> other = PNone)"

definition num_le :: "pyfloat \<Rightarrow> pyval \<Rightarrow> bool" where
  "num_le x other = (case as_number other of Some y \<Rightarrow> fl_le x y | None \<Rightarrow> other \<noteq> PNone)"

text \<open>
  \<^verbatim>\<open>a == b\<close>: numbers by value, text by content (a byte string equals a unicode string
  when it is ASCII and has the same characters), tuples and lists element by element,
  where two elements agree when they are the same object or equal.
\<close>

definition is_ascii :: "string \<Rightarrow> bool" where
  "is_ascii s = list_all (\<lambda>c. of_char c < (128::nat)) s"

fun py_eq :: "pyval \<Rightarrow> pyval \<Rightarrow> bool" where
  "py_eq PNone b = (b = PNone)"
| "py_eq (PStr s) b = (b = PStr s \<or> (b = PUnicode s \<and> is_ascii s))"
| "py_eq (PUnicode s) b = (b = PUnicode s \<or> (b = PStr s \<and> is_ascii s))"
| "py_eq (PTuple xs) b =
     (case b of PTuple ys \<Rightarrow> list_all2 (\<lambda>x y. x = y \<or> py_eq x y) xs ys | _ \<Rightarrow> False)"
| "py_eq (PList xs) b =
     (case b of PList ys \<Rightarrow> list_all2 (\<lambda>x y. x = y \<or> py_eq x y) xs ys | _ \<Rightarrow> False)"
| "py_eq (PCallable f) b = (b = PCallable f)"
| "py_eq (PItemProperty f) b = (b = PItemProperty f)"
| "py_eq PFirstChoice b = (b = PFirstChoice)"
| "py_eq a b = (case (as_number a, as_number b) of
       (Some x, Some y) \<Rightarrow> fl_eq x y | _ \<Rightarrow> False)"

text \<open>
  \<^verbatim>\<open>key in value\<close> for a list or a tuple: true when an element is the same object as
  the key or equal to it. Other objects hold no selection.
\<close>

definition py_same :: "pyval \<Rightarrow> pyval \<Rightarrow> bool" where
  "py_same a b = (a = b \<or> py_eq a b)"

fun py_in :: "pyval \<Rightarrow> pyval \<Rightarrow> pyexc + bool" where
  "py_in key (PList xs) = Inr (list_ex (py_same key) xs)"
| "py_in key (PTuple xs) = Inr (list_ex (py_same key) xs)"
| "py_in key v = Inl TypeError"

text \<open>
  Iterating over an object (\<^verbatim>\<open>for x in obj\<close>, tuple unpacking): lists and tuples give
  their elements, text gives its characters, anything else raises \<^verbatim>\<open>TypeError\<close>.
\<close>

fun py_iter :: "pyval \<Rightarrow> pyexc + pyval list" where
  "py_iter (PList xs) = Inr xs"
| "py_iter (PTuple xs) = Inr xs"
| "py_iter (PStr s) = Inr (map (\<lambda>c. PStr [c]) s)"
| "py_iter (PUnicode s) = Inr (map (\<lambda>c. PUnicode [c]) s)"
| "py_iter v = Inl TypeError"

text \<open>\<^verbatim>\<open>a, b = obj\<close> and \<^verbatim>\<open>a, b, c = obj\<close>: a wrong number of elements is a \<^verbatim>\<open>ValueError\<close>.\<close>

definition unpack :: "nat \<Rightarrow> pyval \<Rightarrow> pyexc + pyval list" where
  "unpack n v = (case py_iter v of
       Inl e \<Rightarrow> Inl e
     | Inr xs \<Rightarrow> if length xs = n then Inr xs else Inl ValueError)"

text \<open>\<^verbatim>\<open>obj[i]\<close> for an index that is not negative.\<close>

fun py_getitem :: "pyval \<Rightarrow> nat \<Rightarrow> pyexc + pyval" where
  "py_getitem (PList xs) i = (if i < length xs then Inr (xs ! i) else Inl IndexError)"
| "py_getitem (PTuple xs) i = (if i < length xs then Inr (xs ! i) else Inl IndexError)"
| "py_getitem (PStr s) i = (if i < length s then Inr (PStr [s ! i]) else Inl IndexError)"
| "py_getitem (PUnicode s) i = (if i < length s then Inr (PUnicode [s ! i]) else Inl IndexError)"
| "py_getitem v i = Inl TypeError"

text \<open>\<^verbatim>\<open>callable(obj)\<close>: functions, classes and \<^verbatim>\<open>ItemProperty\<close> objects can be called.\<close>

fun py_callable :: "pyval \<Rightarrow> bool" where
  "py_callable (PCallable f) = True"
| "py_callable (PItemProperty f) = True"
| "py_callable PFirstChoice = True"
| "py_callable v = False"

text \<open>
  The built-in types the descriptors name in their \<^verbatim>\<open>type\<close> attribute, the type of a
  value, and \<^verbatim>\<open>isinstance\<close>, which also accepts an instance of a subclass: a \<^verbatim>\<open>bool\<close>
  is an \<^verbatim>\<open>int\<close>.
\<close>

datatype pytype =
    T_NoneType | T_bool | T_int | T_long | T_float | T_str | T_unicode | T_tuple | T_list
  | T_function | T_ItemProperty | T_type

fun type_of :: "pyval \<Rightarrow> pytype" where
  "type_of PNone = T_NoneType"
| "type_of (PBool b) = T_bool"
| "type_of (PInt i) = T_int"
| "type_of (PLong i) = T_long"
| "type_of (PFloat f) = T_float"
| "type_of (PStr s) = T_str"
| "type_of (PUnicode s) = T_unicode"
| "type_of (PTuple xs) = T_tuple"
| "type_of (PList xs) = T_list"
| "type_of (PCallable f) = T_function"
| "type_of (PItemProperty f) = T_ItemProperty"
| "type_of PFirstChoice = T_type"

definition issubclass :: "pytype \<Rightarrow> pytype \<Rightarrow> bool" where
  "issubclass t u = (t = u \<or> (t = T_bool \<and> u = T_int))"

definition isinstance :: "pyval \<Rightarrow> pytype list \<Rightarrow> bool" where
  "isinstance v ts = list_ex (issubclass (type_of v)) ts"

section \<open>Descriptors and their property store\<close>

text \<open>
  The classes of the module. A descriptor is an object of one of them; it carries the
  label, the default and the help text given to \<^verbatim>\<open>DataItem.__init__\<close>, and the property
  store: a dictionary from a group name (\<^verbatim>\<open>"data"\<close>, \<^verbatim>\<open>"display"\<close>) to a dictionary of
  named attributes.
\<close>

datatype item_class =
    NumericTypeItem | FloatItem | IntItem | StringItem | TextItem | BoolItem
  | DateItem | DateTimeItem | ColorItem | FileSaveItem | FileOpenItem | FilesOpenItem
  | DirectoryItem | ChoiceItem | MultipleChoiceItem | ImageChoiceItem | FloatArrayItem
  | ButtonItem | DictItem | FontFamilyItem

record DataItem =
  item_class :: item_class
  item_label :: pyval
  item_default :: pyval
  item_help :: pyval
  item_props :: "string \<rightharpoonup> (string \<rightharpoonup> pyval)"

text \<open>
  Modelled from the spec: \<^verbatim>\<open>DataItem.__init__\<close>, \<^verbatim>\<open>set_prop\<close> and \<^verbatim>\<open>get_prop\<close> belong to
  \<^verbatim>\<open>guidata.dataset.datatypes\<close>, which is imported by the module and is not part of the
  sources at hand. The spec describes the property store as a per-descriptor mapping
  from a group name to a mapping of named attributes: \<^verbatim>\<open>set_prop\<close> stores the given
  attributes in the named group and leaves everything else alone, \<^verbatim>\<open>get_prop\<close> reads one
  attribute, and reading an attribute that was never set is a \<^verbatim>\<open>KeyError\<close>.
\<close>

definition DataItem_init :: "item_class \<Rightarrow> pyval \<Rightarrow> pyval \<Rightarrow> pyval \<Rightarrow> DataItem" where
  "DataItem_init cls label dflt help =
     \<lparr>item_class = cls, item_label = label, item_default = dflt, item_help = help,
      item_props = Map.empty\<rparr>"

definition group_of :: "DataItem \<Rightarrow> string \<Rightarrow> (string \<rightharpoonup> pyval)" where
  "group_of self realm = (case item_props self realm of None \<Rightarrow> Map.empty | Some prop \<Rightarrow> prop)"

fun update_all :: "(string \<rightharpoonup> pyval) \<Rightarrow> (string \<times> pyval) list \<Rightarrow> (string \<rightharpoonup> pyval)" where
  "update_all prop [] = prop"
| "update_all prop ((name, v) # kwargs) = update_all (prop(name \<mapsto> v)) kwargs"

definition set_prop :: "DataItem \<Rightarrow> string \<Rightarrow> (string \<times> pyval) list \<Rightarrow> DataItem" where
  "set_prop self realm kwargs =
     self\<lparr>item_props := (item_props self)(realm \<mapsto> update_all (group_of self realm) kwargs)\<rparr>"

definition get_prop :: "DataItem \<Rightarrow> string \<Rightarrow> string \<Rightarrow> pyexc + pyval" where
  "get_prop self realm name =
     (case group_of self realm name of None \<Rightarrow> Inl KeyError | Some v \<Rightarrow> Inr v)"

section \<open>Numeric descriptors\<close>

text \<open>
  \<^verbatim>\<open>NumericTypeItem.__init__\<close> stores \<^verbatim>\<open>min\<close>, \<^verbatim>\<open>max\<close> and \<^verbatim>\<open>nonzero\<close> in the data group;
  \<^verbatim>\<open>IntItem.__init__\<close> adds \<^verbatim>\<open>even\<close>.
\<close>

definition NumericTypeItem_init ::
  "item_class \<Rightarrow> pyval \<Rightarrow> pyval \<Rightarrow> pyval \<Rightarrow> pyval \<Rightarrow> pyval \<Rightarrow> pyval \<Rightarrow> DataItem" where
  "NumericTypeItem_init cls label dflt mn mx nonzero help =
     set_prop (DataItem_init cls label dflt help) ''data''
       [(''min'', mn), (''max'', mx), (''nonzero'', nonzero)]"

definition FloatItem_init ::
  "pyval \<Rightarrow> pyval \<Rightarrow> pyval \<Rightarrow> pyval \<Rightarrow> pyval \<Rightarrow> pyval \<Rightarrow> DataItem" where
  "FloatItem_init label dflt mn mx nonzero help =
     NumericTypeItem_init FloatItem label dflt mn mx nonzero help"

definition IntItem_init ::
  "pyval \<Rightarrow> pyval \<Rightarrow> pyval \<Rightarrow> pyval \<Rightarrow> pyval \<Rightarrow> pyval \<Rightarrow> pyval \<Rightarrow> DataItem" where
  "IntItem_init label dflt mn mx nonzero even_flag help =
     set_prop (NumericTypeItem_init IntItem label dflt mn mx nonzero help) ''data''
       [(''even'', even_flag)]"

text \<open>
  The class attribute \<^verbatim>\<open>type\<close>: \<^verbatim>\<open>float\<close> for \<^verbatim>\<open>FloatItem\<close>, \<^verbatim>\<open>int\<close> for \<^verbatim>\<open>IntItem\<close> and
  \<^verbatim>\<open>None\<close> for \<^verbatim>\<open>NumericTypeItem\<close> itself. No other class inherits the methods of
  \<^verbatim>\<open>NumericTypeItem\<close>.
\<close>

fun numeric_type :: "item_class \<Rightarrow> pytype option" where
  "numeric_type FloatItem = Some T_float"
| "numeric_type IntItem = Some T_int"
| "numeric_type cls = None"

text \<open>
  \<^verbatim>\<open>value < _min\<close> and \<^verbatim>\<open>value > _max\<close>. The descriptors compare only after the
  \<^verbatim>\<open>isinstance\<close> test against \<^verbatim>\<open>int\<close> or \<^verbatim>\<open>float\<close>, so the left operand is a number.
\<close>

definition py_lt :: "pyval \<Rightarrow> pyval \<Rightarrow> bool" where
  "py_lt a b = (case as_number a of Some x \<Rightarrow> num_lt x b | None \<Rightarrow> False)"

definition py_gt :: "pyval \<Rightarrow> pyval \<Rightarrow> bool" where
  "py_gt a b = (case as_number a of Some x \<Rightarrow> num_gt x b | None \<Rightarrow> False)"

text \<open>
  \<^verbatim>\<open>NumericTypeItem.check_value\<close>: the type test, then zero, then the lower bound, then
  the upper bound; the first test that fails returns \<^verbatim>\<open>False\<close>. \<^verbatim>\<open>isinstance\<close> with
  \<^verbatim>\<open>None\<close> for a type raises \<^verbatim>\<open>TypeError\<close>.
\<close>

definition NumericTypeItem_check_value :: "DataItem \<Rightarrow> pyval \<Rightarrow> pyexc + bool" where
  "NumericTypeItem_check_value self v =
     (case numeric_type (item_class self) of
        None \<Rightarrow> Inl TypeError
      | Some t \<Rightarrow>
          if \<not> isinstance v [t] then Inr False
          else (case get_prop self ''data'' ''nonzero'' of
             Inl e \<Rightarrow> Inl e
           | Inr nonzero \<Rightarrow>
               if truthy nonzero \<and> py_eq v (PInt 0) then Inr False
               else (case get_prop self ''data'' ''min'' of
                  Inl e \<Rightarrow> Inl e
                | Inr mn \<Rightarrow>
                    if mn \<noteq> PNone \<and> py_lt v mn then Inr False
                    else (case get_prop self ''data'' ''max'' of
                       Inl e \<Rightarrow> Inl e
                     | Inr mx \<Rightarrow>
                         if mx \<noteq> PNone \<and> py_gt v mx then Inr False
                         else Inr True))))"

text \<open>
  The parity test of \<^verbatim>\<open>IntItem.check_value\<close> is \<^verbatim>\<open>value//2 == value/2.\<close>: the floor
  division is exact integer arithmetic, the division by \<^verbatim>\<open>2.\<close> converts the integer
  to a double first. The conversion rounds to 53 significant bits, to nearest, ties to
  even; a magnitude of \<^verbatim>\<open>2 ** 1024\<close> or more after rounding is an \<^verbatim>\<open>OverflowError\<close>.
  Halving a double that holds an integer is exact, and Python compares an integer with
  a float by value.
\<close>

fun bit_length :: "nat \<Rightarrow> nat" where
  "bit_length n = (if n = 0 then 0 else Suc (bit_length (n div 2)))"

declare bit_length.simps [simp del]

definition float_of_int :: "int \<Rightarrow> pyexc + rat" where
  "float_of_int i =
     (let a = nat \<bar>i\<bar>; n = bit_length a in
      if n \<le> 53 then Inr (of_int i)
      else
        let e = n - 53; q = a div 2 ^ e; r = a mod 2 ^ e; h = (2::nat) ^ (e - 1);
            q' = (if h < r \<or> (r = h \<and> odd q) then q + 1 else q);
            m = q' * 2 ^ e
        in if 2 ^ 1024 \<le> m then Inl OverflowError
           else Inr (of_int (if i < 0 then - int m else int m)))"

definition int_value :: "pyval \<Rightarrow> int option" where
  "int_value v = (case v of PInt i \<Rightarrow> Some i | PBool b \<Rightarrow> Some (if b then 1 else 0) | _ \<Rightarrow> None)"

definition is_even_test :: "int \<Rightarrow> pyexc + bool" where
  "is_even_test i =
     (case float_of_int i of
        Inl e \<Rightarrow> Inl e
      | Inr f \<Rightarrow> Inr (fl_eq (Finite (of_int (i div 2))) (Finite (f / 2))))"

text \<open>
  \<^verbatim>\<open>IntItem.check_value\<close>. A value that has passed the inherited test is an \<^verbatim>\<open>int\<close> (or a
  \<^verbatim>\<open>bool\<close>), so the last case of the value is never reached.
\<close>

definition IntItem_check_value :: "DataItem \<Rightarrow> pyval \<Rightarrow> pyexc + bool" where
  "IntItem_check_value self v =
     (case NumericTypeItem_check_value self v of
        Inl e \<Rightarrow> Inl e
      | Inr valid \<Rightarrow>
          if \<not> valid then Inr False
          else (case get_prop self ''data'' ''even'' of
             Inl e \<Rightarrow> Inl e
           | Inr even_flag \<Rightarrow>
               if even_flag \<noteq> PNone then
                 (case int_value v of
                    None \<Rightarrow> Inl TypeError
                  | Some i \<Rightarrow>
                      (case is_even_test i of
                         Inl e \<Rightarrow> Inl e
                       | Inr is_even \<Rightarrow>
                           if (truthy even_flag \<and> \<not> is_even) \<or> (\<not> truthy even_flag \<and> is_even)
                           then Inr False
                           else Inr True))
               else Inr True))"

text \<open>
  Method resolution: \<^verbatim>\<open>item.check_value(value)\<close> on a numeric descriptor runs
  \<^verbatim>\<open>IntItem.check_value\<close> for an \<^verbatim>\<open>IntItem\<close> and the inherited
  \<^verbatim>\<open>NumericTypeItem.check_value\<close> for a \<^verbatim>\<open>FloatItem\<close>.
\<close>

definition numeric_check_value :: "DataItem \<Rightarrow> pyval \<Rightarrow> pyexc + bool" where
  "numeric_check_value self v =
     (if item_class self = IntItem then IntItem_check_value self v
      else NumericTypeItem_check_value self v)"

section \<open>Text descriptors\<close>

definition StringItem_init :: "item_class \<Rightarrow> pyval \<Rightarrow> pyval \<Rightarrow> pyval \<Rightarrow> pyval \<Rightarrow> DataItem" where
  "StringItem_init cls label dflt notempty help =
     set_prop (DataItem_init cls label dflt help) ''data'' [(''notempty'', notempty)]"

text \<open>\<^verbatim>\<open>StringItem.check_value\<close>: no type test, only \<^verbatim>\<open>notempty and not value\<close>.\<close>

definition StringItem_check_value :: "DataItem \<Rightarrow> pyval \<Rightarrow> pyexc + bool" where
  "StringItem_check_value self v =
     (case get_prop self ''data'' ''notempty'' of
        Inl e \<Rightarrow> Inl e
      | Inr notempty \<Rightarrow> if truthy notempty \<and> \<not> truthy v then Inr False else Inr True)"

section \<open>Paths of files to open\<close>

text \<open>
  The file system is what \<^verbatim>\<open>os.path.exists\<close> and \<^verbatim>\<open>os.path.isfile\<close> look at: for each
  path, nothing, a regular file, a directory or something else. Both functions want
  text for a path and raise \<^verbatim>\<open>TypeError\<close> for another object.
\<close>

datatype node = RegularFile | Directory | Special

type_synonym filesystem = "string \<rightharpoonup> node"

definition os_path_exists :: "filesystem \<Rightarrow> string \<Rightarrow> bool" where
  "os_path_exists fs path = (fs path \<noteq> None)"

definition os_path_isfile :: "filesystem \<Rightarrow> string \<Rightarrow> bool" where
  "os_path_isfile fs path = (fs path = Some RegularFile)"

fun path_text :: "pyval \<Rightarrow> string option" where
  "path_text (PStr s) = Some s"
| "path_text (PUnicode s) = Some s"
| "path_text v = None"

text \<open>
  \<^verbatim>\<open>FilesOpenItem.check_value\<close>: the loop over the paths keeps the conjunction in
  \<^verbatim>\<open>allexist\<close>; \<^verbatim>\<open>and\<close> does not look at a path once \<^verbatim>\<open>allexist\<close> is false.
\<close>

fun files_loop :: "filesystem \<Rightarrow> bool \<Rightarrow> pyval list \<Rightarrow> pyexc + bool" where
  "files_loop fs allexist [] = Inr allexist"
| "files_loop fs allexist (path # paths) =
     (if \<not> allexist then files_loop fs False paths
      else (case path_text path of
         None \<Rightarrow> Inl TypeError
       | Some p \<Rightarrow> files_loop fs (os_path_exists fs p \<and> os_path_isfile fs p) paths))"

definition FilesOpenItem_check_value :: "filesystem \<Rightarrow> DataItem \<Rightarrow> pyval \<Rightarrow> pyexc + bool" where
  "FilesOpenItem_check_value fs self v =
     (case py_iter v of Inl e \<Rightarrow> Inl e | Inr paths \<Rightarrow> files_loop fs True paths)"

section \<open>Choice descriptors\<close>

text \<open>
  \<^verbatim>\<open>utf8_to_unicode\<close> comes from \<^verbatim>\<open>guidata.utils\<close>, outside the module: it is the
  parameter \<open>u8\<close>, from the bytes of a \<^verbatim>\<open>str\<close> to the object it returns or the
  exception it raises.

  \<^verbatim>\<open>ChoiceItem._normalize_choice\<close>: a tuple is unpacked into key and label (a tuple of
  another length is a \<^verbatim>\<open>ValueError\<close>), any other entry is a label whose key is its
  index; a \<^verbatim>\<open>str\<close> label goes through \<^verbatim>\<open>utf8_to_unicode\<close>; the icon is \<^verbatim>\<open>None\<close>.
\<close>

definition choice_entry ::
  "(string \<Rightarrow> pyexc + pyval) \<Rightarrow> pyval \<Rightarrow> pyval \<Rightarrow> pyval \<Rightarrow> pyexc + pyval" where
  "choice_entry u8 key label img =
     (case label of
        PStr s \<Rightarrow> (case u8 s of Inl e \<Rightarrow> Inl e | Inr label' \<Rightarrow> Inr (PTuple [key, label', img]))
      | _ \<Rightarrow> Inr (PTuple [key, label, img]))"

fun ChoiceItem_normalize_choice ::
  "(string \<Rightarrow> pyexc + pyval) \<Rightarrow> nat \<Rightarrow> pyval \<Rightarrow> pyexc + pyval" where
  "ChoiceItem_normalize_choice u8 idx (PTuple [key, label]) = choice_entry u8 key label PNone"
| "ChoiceItem_normalize_choice u8 idx (PTuple xs) = Inl ValueError"
| "ChoiceItem_normalize_choice u8 idx choice = choice_entry u8 (PInt (int idx)) choice PNone"

text \<open>
  \<^verbatim>\<open>ImageChoiceItem._normalize_choice\<close>: the entry must be a tuple (an assertion); three
  elements are key, label and icon, otherwise the entry is unpacked into label and icon.
\<close>

fun ImageChoiceItem_normalize_choice ::
  "(string \<Rightarrow> pyexc + pyval) \<Rightarrow> nat \<Rightarrow> pyval \<Rightarrow> pyexc + pyval" where
  "ImageChoiceItem_normalize_choice u8 idx (PTuple [key, label, img]) = choice_entry u8 key label img"
| "ImageChoiceItem_normalize_choice u8 idx (PTuple [label, img]) =
     choice_entry u8 (PInt (int idx)) label img"
| "ImageChoiceItem_normalize_choice u8 idx (PTuple xs) = Inl ValueError"
| "ImageChoiceItem_normalize_choice u8 idx choice = Inl AssertionError"

text \<open>The method \<^verbatim>\<open>self._normalize_choice\<close> of an object of class \<open>cls\<close>.\<close>

definition normalize_choice ::
  "item_class \<Rightarrow> (string \<Rightarrow> pyexc + pyval) \<Rightarrow> nat \<Rightarrow> pyval \<Rightarrow> pyexc + pyval" where
  "normalize_choice cls =
     (if cls = ImageChoiceItem then ImageChoiceItem_normalize_choice
      else ChoiceItem_normalize_choice)"

text \<open>
  The loop \<^verbatim>\<open>for idx, choice in enumerate(choices)\<close> of \<^verbatim>\<open>ChoiceItem.__init__\<close>, from
  index \<open>idx\<close> on; the first exception ends it.
\<close>

fun normalize_from ::
  "(nat \<Rightarrow> pyval \<Rightarrow> pyexc + pyval) \<Rightarrow> nat \<Rightarrow> pyval list \<Rightarrow> pyexc + pyval list" where
  "normalize_from nrm idx [] = Inr []"
| "normalize_from nrm idx (choice # choices) =
     (case nrm idx choice of
        Inl e \<Rightarrow> Inl e
      | Inr entry \<Rightarrow>
          (case normalize_from nrm (Suc idx) choices of
             Inl e \<Rightarrow> Inl e
           | Inr entries \<Rightarrow> Inr (entry # entries)))"

definition choices_data ::
  "item_class \<Rightarrow> (string \<Rightarrow> pyexc + pyval) \<Rightarrow> pyval \<Rightarrow> pyexc + pyval" where
  "choices_data cls u8 choices =
     (if py_callable choices then Inr (PItemProperty choices)
      else (case py_iter choices of
         Inl e \<Rightarrow> Inl e
       | Inr cs \<Rightarrow>
           (case normalize_from (normalize_choice cls u8) 0 cs of
              Inl e \<Rightarrow> Inl e
            | Inr entries \<Rightarrow> Inr (PList entries))))"

text \<open>
  The default of \<^verbatim>\<open>ChoiceItem.__init__\<close>: with the sentinel \<^verbatim>\<open>FirstChoice\<close> and a static
  sequence it is \<^verbatim>\<open>_choices_data[0][0]\<close>, with the sentinel and a function it is
  \<^verbatim>\<open>None\<close>, and otherwise it is the default given.
\<close>

definition choice_default :: "pyval \<Rightarrow> pyval \<Rightarrow> pyval \<Rightarrow> pyexc + pyval" where
  "choice_default choices data dflt =
     (if dflt = PFirstChoice \<and> \<not> py_callable choices then
        (case py_getitem data 0 of Inl e \<Rightarrow> Inl e | Inr first \<Rightarrow> py_getitem first 0)
      else if dflt = PFirstChoice then Inr PNone
      else Inr dflt)"

definition ChoiceItem_init ::
  "item_class \<Rightarrow> (string \<Rightarrow> pyexc + pyval) \<Rightarrow> pyval \<Rightarrow> pyval \<Rightarrow> pyval \<Rightarrow> pyval
     \<Rightarrow> pyexc + DataItem" where
  "ChoiceItem_init cls u8 label choices dflt help =
     (case choices_data cls u8 choices of
        Inl e \<Rightarrow> Inl e
      | Inr data \<Rightarrow>
          (case choice_default choices data dflt of
             Inl e \<Rightarrow> Inl e
           | Inr d \<Rightarrow>
               Inr (set_prop (DataItem_init cls label d help) ''data'' [(''choices'', data)])))"

text \<open>\<^verbatim>\<open>MultipleChoiceItem.__init__\<close>; its default for \<^verbatim>\<open>default\<close> is the empty tuple.\<close>

definition MultipleChoiceItem_init ::
  "(string \<Rightarrow> pyexc + pyval) \<Rightarrow> pyval \<Rightarrow> pyval \<Rightarrow> pyval \<Rightarrow> pyval \<Rightarrow> pyexc + DataItem" where
  "MultipleChoiceItem_init u8 label choices dflt help =
     (case ChoiceItem_init MultipleChoiceItem u8 label choices dflt help of
        Inl e \<Rightarrow> Inl e
      | Inr self \<Rightarrow> Inr (set_prop self ''display'' [(''shape'', PTuple [PInt 1, PInt (- 1)])]))"

section \<open>Descriptor objects in the heap\<close>

text \<open>
  A descriptor is a shared, mutable object: the heap maps a reference to the object it
  names. \<^verbatim>\<open>horizontal\<close> and \<^verbatim>\<open>vertical\<close> change the object \<^verbatim>\<open>self\<close> refers to and return
  \<^verbatim>\<open>self\<close>.
\<close>

type_synonym ref = nat

type_synonym heap = "ref \<Rightarrow> DataItem"

definition MultipleChoiceItem_horizontal :: "ref \<Rightarrow> pyval \<Rightarrow> heap \<Rightarrow> ref \<times> heap" where
  "MultipleChoiceItem_horizontal self row_nb h =
     (self, h(self := set_prop (h self) ''display'' [(''shape'', PTuple [row_nb, PInt (- 1)])]))"

definition MultipleChoiceItem_vertical :: "ref \<Rightarrow> pyval \<Rightarrow> heap \<Rightarrow> ref \<times> heap" where
  "MultipleChoiceItem_vertical self col_nb h =
     (self, h(self := set_prop (h self) ''display'' [(''shape'', PTuple [PInt (- 1), col_nb])]))"

section \<open>Record instances and the serialization protocol\<close>

text \<open>
  Modelled from the spec: the record container, the accessors \<^verbatim>\<open>get_value\<close>,
  \<^verbatim>\<open>__set__\<close> and \<^verbatim>\<open>get_prop_value\<close> of \<^verbatim>\<open>DataItem\<close>, and the writer and the reader
  are not part of the sources at hand. A record instance owns a mapping from descriptor
  identity to the current value; a descriptor with no value there has its default. A
  property is a constant or an \<^verbatim>\<open>ItemProperty\<close> resolved against the instance at read
  time; the resolver is the parameter \<open>dyn\<close>. The writer writes a single value or an
  ordered sequence, one token each, and the reader is its mirror.
\<close>

type_synonym dataset = "ref \<rightharpoonup> pyval"

definition get_value :: "heap \<Rightarrow> ref \<Rightarrow> dataset \<Rightarrow> pyval" where
  "get_value h self inst = (case inst self of None \<Rightarrow> item_default (h self) | Some v \<Rightarrow> v)"

definition set_value :: "ref \<Rightarrow> dataset \<Rightarrow> pyval \<Rightarrow> dataset" where
  "set_value self inst v = inst(self \<mapsto> v)"

definition get_prop_value ::
  "(pyval \<Rightarrow> ref \<Rightarrow> dataset \<Rightarrow> pyexc + pyval) \<Rightarrow> heap \<Rightarrow> ref \<Rightarrow> string \<Rightarrow> dataset \<Rightarrow> string
     \<Rightarrow> pyexc + pyval" where
  "get_prop_value dyn h self realm inst name =
     (case get_prop (h self) realm name of
        Inl e \<Rightarrow> Inl e
      | Inr (PItemProperty f) \<Rightarrow> dyn f self inst
      | Inr v \<Rightarrow> Inr v)"

datatype token = Single pyval | Sequence "pyval list"

definition write_value :: "token list \<Rightarrow> pyval \<Rightarrow> token list" where
  "write_value writer v = writer @ [Single v]"

definition write_sequence :: "token list \<Rightarrow> pyval list \<Rightarrow> token list" where
  "write_sequence writer seq = writer @ [Sequence seq]"

fun read_value :: "token list \<Rightarrow> pyexc + pyval \<times> token list" where
  "read_value (Single v # reader) = Inr (v, reader)"
| "read_value reader = Inl IOError"

fun read_sequence :: "token list \<Rightarrow> pyexc + pyval list \<times> token list" where
  "read_sequence (Sequence seq # reader) = Inr (seq, reader)"
| "read_sequence reader = Inl IOError"

text \<open>
  \<^verbatim>\<open>MultipleChoiceItem.serialize\<close>: one flag \<^verbatim>\<open>key in value\<close> for each entry of the
  choice list, in its order, written as one sequence.
\<close>

fun serialize_flags :: "pyval \<Rightarrow> pyval list \<Rightarrow> pyexc + pyval list" where
  "serialize_flags v [] = Inr []"
| "serialize_flags v (entry # entries) =
     (case unpack 3 entry of
        Inl e \<Rightarrow> Inl e
      | Inr kli \<Rightarrow>
          (case py_in (hd kli) v of
             Inl e \<Rightarrow> Inl e
           | Inr flag \<Rightarrow>
               (case serialize_flags v entries of
                  Inl e \<Rightarrow> Inl e
                | Inr seq \<Rightarrow> Inr (PBool flag # seq))))"

definition MultipleChoiceItem_serialize ::
  "(pyval \<Rightarrow> ref \<Rightarrow> dataset \<Rightarrow> pyexc + pyval) \<Rightarrow> heap \<Rightarrow> ref \<Rightarrow> dataset \<Rightarrow> token list
     \<Rightarrow> pyexc + token list" where
  "MultipleChoiceItem_serialize dyn h self inst writer =
     (case get_prop_value dyn h self ''data'' inst ''choices'' of
        Inl e \<Rightarrow> Inl e
      | Inr choices \<Rightarrow>
          (case py_iter choices of
             Inl e \<Rightarrow> Inl e
           | Inr entries \<Rightarrow>
               (case serialize_flags (get_value h self inst) entries of
                  Inl e \<Rightarrow> Inl e
                | Inr seq \<Rightarrow> Inr (write_sequence writer seq))))"

text \<open>
  \<^verbatim>\<open>MultipleChoiceItem.deserialize\<close>: the sequence is read first; for each flag that is
  true, the key \<^verbatim>\<open>_choices[idx][0]\<close> at the position of the flag is appended; the
  list of keys becomes the value.
\<close>

fun deserialize_keys :: "pyval \<Rightarrow> nat \<Rightarrow> pyval list \<Rightarrow> pyexc + pyval list" where
  "deserialize_keys choices idx [] = Inr []"
| "deserialize_keys choices idx (flag # flags) =
     (if truthy flag then
        (case py_getitem choices idx of
           Inl e \<Rightarrow> Inl e
         | Inr entry \<Rightarrow>
             (case py_getitem entry 0 of
                Inl e \<Rightarrow> Inl e
              | Inr key \<Rightarrow>
                  (case deserialize_keys choices (Suc idx) flags of
                     Inl e \<Rightarrow> Inl e
                   | Inr keys \<Rightarrow> Inr (key # keys))))
      else deserialize_keys choices (Suc idx) flags)"

definition MultipleChoiceItem_deserialize ::
  "(pyval \<Rightarrow> ref \<Rightarrow> dataset \<Rightarrow> pyexc + pyval) \<Rightarrow> heap \<Rightarrow> ref \<Rightarrow> dataset \<Rightarrow> token list
     \<Rightarrow> pyexc + dataset \<times> token list" where
  "MultipleChoiceItem_deserialize dyn h self inst reader =
     (case read_sequence reader of
        Inl e \<Rightarrow> Inl e
      | Inr (flags, reader') \<Rightarrow>
          (case get_prop_value dyn h self ''data'' inst ''choices'' of
             Inl e \<Rightarrow> Inl e
           | Inr choices \<Rightarrow>
               (case deserialize_keys choices 0 flags of
                  Inl e \<Rightarrow> Inl e
                | Inr keys \<Rightarrow> Inr (set_value self inst (PList keys), reader'))))"

text \<open>
  An entry of a static choice list, as \<^verbatim>\<open>_normalize_choice\<close> returns it: the tuple
  object of a key, a label and an icon.
\<close>

definition entry_of :: "pyval \<times> pyval \<times> pyval \<Rightarrow> pyval" where
  "entry_of t = PTuple [fst t, fst (snd t), snd (snd t)]"

text \<open>
  The descriptor that \<^verbatim>\<open>MultipleChoiceItem("Letters", ["A", "B", "C", "D", "E"])\<close>
  constructs, with the labels decoded as they are: five entries with the keys 0 to 4.
\<close>

definition five_letters :: DataItem where
  "five_letters =
     set_prop
       (set_prop (DataItem_init MultipleChoiceItem (PStr ''Letters'') (PTuple []) (PStr []))
          ''data''
          [(''choices'', PList
             [PTuple [PInt 0, PUnicode ''A'', PNone], PTuple [PInt 1, PUnicode ''B'', PNone],
              PTuple [PInt 2, PUnicode ''C'', PNone], PTuple [PInt 3, PUnicode ''D'', PNone],
              PTuple [PInt 4, PUnicode ''E'', PNone]])])
       ''display'' [(''shape'', PTuple [PInt 1, PInt (- 1)])]"

section \<open>Button descriptors\<close>

text \<open>
  \<^verbatim>\<open>ButtonItem.__init__\<close> (also run by \<^verbatim>\<open>DictItem.__init__\<close>, for class \<open>cls\<close>) stores the
  callback and the icon in the display group. The bodies of \<^verbatim>\<open>ButtonItem.serialize\<close>
  and \<^verbatim>\<open>ButtonItem.deserialize\<close> are \<^verbatim>\<open>pass\<close>.
\<close>

definition ButtonItem_init ::
  "item_class \<Rightarrow> pyval \<Rightarrow> pyval \<Rightarrow> pyval \<Rightarrow> pyval \<Rightarrow> pyval \<Rightarrow> DataItem" where
  "ButtonItem_init cls label callback icon dflt help =
     set_prop (set_prop (DataItem_init cls label dflt help) ''display'' [(''callback'', callback)])
       ''display'' [(''icon'', icon)]"

definition ButtonItem_serialize ::
  "heap \<Rightarrow> ref \<Rightarrow> dataset \<Rightarrow> token list \<Rightarrow> pyexc + token list" where
  "ButtonItem_serialize h self inst writer = Inr writer"

definition ButtonItem_deserialize ::
  "heap \<Rightarrow> ref \<Rightarrow> dataset \<Rightarrow> token list \<Rightarrow> pyexc + dataset \<times> token list" where
  "ButtonItem_deserialize h self inst reader = Inr (inst, reader)"

text \<open>
  Modelled from the spec: \<^verbatim>\<open>DataItem.serialize\<close> and \<^verbatim>\<open>DataItem.deserialize\<close>, which
  the other classes inherit, are not part of the sources at hand; a descriptor writes
  exactly one logical value and reads back what was written.
\<close>

definition DataItem_serialize ::
  "heap \<Rightarrow> ref \<Rightarrow> dataset \<Rightarrow> token list \<Rightarrow> pyexc + token list" where
  "DataItem_serialize h self inst writer = Inr (write_value writer (get_value h self inst))"

definition DataItem_deserialize ::
  "heap \<Rightarrow> ref \<Rightarrow> dataset \<Rightarrow> token list \<Rightarrow> pyexc + dataset \<times> token list" where
  "DataItem_deserialize h self inst reader =
     (case read_value reader of
        Inl e \<Rightarrow> Inl e
      | Inr (v, reader') \<Rightarrow> Inr (set_value self inst v, reader'))"

text \<open>
  Method resolution: \<^verbatim>\<open>item.serialize(instance, writer)\<close> runs the method of the class
  of the object, which \<^verbatim>\<open>MultipleChoiceItem\<close> and \<^verbatim>\<open>ButtonItem\<close> define and \<^verbatim>\<open>DictItem\<close>
  inherits from \<^verbatim>\<open>ButtonItem\<close>.
\<close>

definition serialize ::
  "(pyval \<Rightarrow> ref \<Rightarrow> dataset \<Rightarrow> pyexc + pyval) \<Rightarrow> heap \<Rightarrow> ref \<Rightarrow> dataset \<Rightarrow> token list
     \<Rightarrow> pyexc + token list" where
  "serialize dyn h self inst writer =
     (if item_class (h self) = MultipleChoiceItem then
        MultipleChoiceItem_serialize dyn h self inst writer
      else if item_class (h self) = ButtonItem \<or> item_class (h self) = DictItem then
        ButtonItem_serialize h self inst writer
      else DataItem_serialize h self inst writer)"

definition deserialize ::
  "(pyval \<Rightarrow> ref \<Rightarrow> dataset \<Rightarrow> pyexc + pyval) \<Rightarrow> heap \<Rightarrow> ref \<Rightarrow> dataset \<Rightarrow> token list
     \<Rightarrow> pyexc + dataset \<times> token list" where
  "deserialize dyn h self inst reader =
     (if item_class (h self) = MultipleChoiceItem then
        MultipleChoiceItem_deserialize dyn h self inst reader
      else if item_class (h self) = ButtonItem \<or> item_class (h self) = DictItem then
        ButtonItem_deserialize h self inst reader
      else DataItem_deserialize h self inst reader)"

section \<open>Numbers from text\<close>

text \<open>
  The pattern of \<^verbatim>\<open>NumericTypeItem.from_string\<close> is
  \<^verbatim>\<open>^([\d\(\)\+/\-\*.]|e)+$\<close>, matched from the start of the text: one or more
  characters out of the digits, the parentheses, \<^verbatim>\<open>+ / - * .\<close> and the letter
  \<^verbatim>\<open>e\<close>. In Python's \<^verbatim>\<open>re\<close>, \<^verbatim>\<open>$\<close> matches at the end of the text and also just
  before a newline that ends the text.
\<close>

definition grammar_char :: "char \<Rightarrow> bool" where
  "grammar_char c = (c \<in> set ''0123456789()+/-*.e'')"

definition re_match_numeric :: "string \<Rightarrow> bool" where
  "re_match_numeric s =
     (let body = (if s \<noteq> [] \<and> last s = CHR 0x0A then butlast s else s)
      in body \<noteq> [] \<and> list_all grammar_char body)"

text \<open>
  \<^verbatim>\<open>eval\<close> is Python's own: it is the parameter \<open>ev\<close>, from the text to the value of the
  expression or the exception raised. An expression over the alphabet of the pattern
  is made of number literals, operators, parentheses, and names and attributes spelt
  with \<^verbatim>\<open>e\<close> and digits, none of which is bound; its value is an integer, a float or the
  empty tuple \<^verbatim>\<open>()\<close>.
\<close>

datatype evalue = EInt int | EFloat pyfloat | ETuple

text \<open>
  \<^verbatim>\<open>int(x)\<close> and \<^verbatim>\<open>float(x)\<close>. An integer that fits a machine word (\<^verbatim>\<open>sys.maxint\<close>, here
  of a 64-bit platform) is an \<^verbatim>\<open>int\<close>, a larger one a \<^verbatim>\<open>long\<close>; \<^verbatim>\<open>int\<close> truncates a
  float towards zero.
\<close>

definition maxint :: int where
  "maxint = 2 ^ 63 - 1"

definition mk_int :: "int \<Rightarrow> pyval" where
  "mk_int i = (if - maxint - 1 \<le> i \<and> i \<le> maxint then PInt i else PLong i)"

definition truncate :: "rat \<Rightarrow> int" where
  "truncate r = (if 0 \<le> r then \<lfloor>r\<rfloor> else \<lceil>r\<rceil>)"

fun py_int :: "evalue \<Rightarrow> pyexc + pyval" where
  "py_int (EInt i) = Inr (mk_int i)"
| "py_int (EFloat (Finite r)) = Inr (mk_int (truncate r))"
| "py_int (EFloat (NaN n)) = Inl ValueError"
| "py_int (EFloat f) = Inl OverflowError"
| "py_int ETuple = Inl TypeError"

fun py_float :: "evalue \<Rightarrow> pyexc + pyval" where
  "py_float (EInt i) = (case float_of_int i of Inl e \<Rightarrow> Inl e | Inr f \<Rightarrow> Inr (PFloat (Finite f)))"
| "py_float (EFloat f) = Inr (PFloat f)"
| "py_float ETuple = Inl TypeError"

text \<open>\<^verbatim>\<open>self.type(x)\<close>; calling \<^verbatim>\<open>None\<close>, the \<^verbatim>\<open>type\<close> of \<^verbatim>\<open>NumericTypeItem\<close>, is a \<^verbatim>\<open>TypeError\<close>.\<close>

definition call_type :: "item_class \<Rightarrow> evalue \<Rightarrow> pyexc + pyval" where
  "call_type cls x =
     (case numeric_type cls of
        None \<Rightarrow> Inl TypeError
      | Some t \<Rightarrow> if t = T_int then py_int x else py_float x)"

text \<open>
  \<^verbatim>\<open>NumericTypeItem.from_string\<close> for a text \<open>s\<close> (the \<^verbatim>\<open>unicode\<close> of a \<^verbatim>\<open>QString\<close>): when
  the pattern matches, the value of \<^verbatim>\<open>self.type(eval(value))\<close>, unless anything is
  raised, which the bare \<^verbatim>\<open>except\<close> swallows; \<^verbatim>\<open>None\<close> in every other case.
\<close>

definition NumericTypeItem_from_string ::
  "(string \<Rightarrow> pyexc + evalue) \<Rightarrow> DataItem \<Rightarrow> string \<Rightarrow> pyval" where
  "NumericTypeItem_from_string ev self s =
     (if re_match_numeric s then
        (case ev s of
           Inl e \<Rightarrow> PNone
         | Inr x \<Rightarrow>
             (case call_type (item_class self) x of
                Inl e \<Rightarrow> PNone
              | Inr v \<Rightarrow> v))
      else PNone)"

section \<open>The validation contract as the specification words it\<close>

text \<open>
  \<^verbatim>\<open>value >= other\<close> and \<^verbatim>\<open>value <= other\<close> for a number on the left, and the reading
  of the numeric contract in the words of the specification: the value has exactly the
  numeric type of the descriptor, is not zero when \<^verbatim>\<open>nonzero\<close> is set, is at least
  \<^verbatim>\<open>min\<close> when \<^verbatim>\<open>min\<close> is set and at most \<^verbatim>\<open>max\<close> when \<^verbatim>\<open>max\<close> is set.
\<close>

definition is_nan :: "pyval \<Rightarrow> bool" where
  "is_nan v = (case v of PFloat x \<Rightarrow> fl_is_nan x | _ \<Rightarrow> False)"

definition py_ge :: "pyval \<Rightarrow> pyval \<Rightarrow> bool" where
  "py_ge a b = (case as_number a of Some x \<Rightarrow> num_ge x b | None \<Rightarrow> False)"

definition py_le :: "pyval \<Rightarrow> pyval \<Rightarrow> bool" where
  "py_le a b = (case as_number a of Some x \<Rightarrow> num_le x b | None \<Rightarrow> False)"

definition numeric_contract :: "pytype \<Rightarrow> pyval \<Rightarrow> pyval \<Rightarrow> pyval \<Rightarrow> pyval \<Rightarrow> bool" where
  "numeric_contract t nonzero mn mx v =
     (type_of v = t
      \<and> (truthy nonzero \<longrightarrow> \<not> py_eq v (PInt 0))
      \<and> (mn \<noteq> PNone \<longrightarrow> py_ge v mn)
      \<and> (mx \<noteq> PNone \<longrightarrow> py_le v mx))"

section \<open>Properties of the property store\<close>

lemma group_of_set_prop:
  "group_of (set_prop self realm kwargs) realm' =
     (if realm' = realm then update_all (group_of self realm) kwargs else group_of self realm')"
  by (simp add: group_of_def set_prop_def)

lemma update_all_other:
  "name \<notin> fst ` set kwargs \<Longrightarrow> update_all m kwargs name = m name"
  by (induction m kwargs rule: update_all.induct) auto

lemma get_prop_set_prop_other_realm:
  "realm' \<noteq> realm \<Longrightarrow> get_prop (set_prop self realm kwargs) realm' name = get_prop self realm' name"
  by (simp add: get_prop_def group_of_set_prop)

lemma get_prop_set_prop_single:
  "get_prop (set_prop self realm [(key, v)]) realm name =
     (if name = key then Inr v else get_prop self realm name)"
  by (simp add: get_prop_def group_of_set_prop)

lemma item_fields_set_prop:
  "item_class (set_prop self realm kwargs) = item_class self"
  "item_label (set_prop self realm kwargs) = item_label self"
  "item_default (set_prop self realm kwargs) = item_default self"
  "item_help (set_prop self realm kwargs) = item_help self"
  by (simp_all add: set_prop_def)

section \<open>Text descriptors accept any object\<close>

text \<open>
  C9. \<^verbatim>\<open>StringItem.check_value\<close> makes no type test: for every object \<open>v\<close>, text or not,
  the result is \<^verbatim>\<open>False\<close> exactly when \<^verbatim>\<open>notempty\<close> is true and \<open>v\<close> is empty (false in
  a truth test), and \<^verbatim>\<open>True\<close> otherwise; with \<^verbatim>\<open>notempty\<close> unset every object is valid.
\<close>

theorem StringItem_check_value_no_type_check:
  assumes "get_prop self ''data'' ''notempty'' = Inr notempty"
  shows "StringItem_check_value self v = Inr (\<not> (truthy notempty \<and> \<not> truthy v))
    \<and> (notempty = PNone \<longrightarrow> StringItem_check_value self v = Inr True)"
  using assms by (auto simp: StringItem_check_value_def)

theorem StringItem_check_value_no_type_check_witness:
  "StringItem_check_value (StringItem_init StringItem (PStr ''name'') PNone (PBool True) (PStr [])) (PInt 0)
     = Inr False
   \<and> StringItem_check_value (StringItem_init StringItem (PStr ''name'') PNone (PBool True) (PStr [])) (PInt 7)
     = Inr True
   \<and> StringItem_check_value (StringItem_init TextItem (PStr ''name'') PNone PNone (PStr [])) (PList [])
     = Inr True"
proof -
  have a: "get_prop (StringItem_init StringItem (PStr ''name'') PNone (PBool True) (PStr []))
      ''data'' ''notempty'' = Inr (PBool True)"
    by (simp add: StringItem_init_def get_prop_set_prop_single)
  have b: "get_prop (StringItem_init TextItem (PStr ''name'') PNone PNone (PStr []))
      ''data'' ''notempty'' = Inr PNone"
    by (simp add: StringItem_init_def get_prop_set_prop_single)
  show ?thesis
    using StringItem_check_value_no_type_check [OF a, of "PInt 0"]
      StringItem_check_value_no_type_check [OF a, of "PInt 7"]
      StringItem_check_value_no_type_check [OF b, of "PList []"]
    by simp
qed

section \<open>Button descriptors are not persisted\<close>

text \<open>
  C8. For a button descriptor (\<^verbatim>\<open>ButtonItem\<close>, and \<^verbatim>\<open>DictItem\<close>, which inherits both
  methods), \<^verbatim>\<open>serialize\<close> leaves the writer as it was and \<^verbatim>\<open>deserialize\<close> leaves the
  reader and the record instance as they were: nothing is written, nothing is read, and
  the stored value of the descriptor is unchanged.
\<close>

theorem ButtonItem_serialize_deserialize_noop:
  assumes "item_class (h self) = ButtonItem \<or> item_class (h self) = DictItem"
  shows "serialize dyn h self inst writer = Inr writer
    \<and> deserialize dyn h self inst reader = Inr (inst, reader)
    \<and> (\<forall>inst' reader'. deserialize dyn h self inst reader = Inr (inst', reader')
         \<longrightarrow> get_value h self inst' = get_value h self inst)"
  using assms
  by (auto simp: serialize_def deserialize_def ButtonItem_serialize_def ButtonItem_deserialize_def)

theorem ButtonItem_serialize_deserialize_noop_witness:
  "serialize (\<lambda>f r i. Inl TypeError)
       (\<lambda>r. ButtonItem_init ButtonItem (PStr ''Run'') (PCallable 0) PNone PNone (PStr []))
       0 (Map.empty(0 \<mapsto> PInt 3)) [Single (PInt 1)]
     = Inr [Single (PInt 1)]
   \<and> deserialize (\<lambda>f r i. Inl TypeError)
       (\<lambda>r. ButtonItem_init DictItem (PStr ''Run'') (PCallable 0) (PStr ''dictedit.png'') PNone (PStr []))
       0 Map.empty [Single (PInt 1)]
     = Inr (Map.empty, [Single (PInt 1)])"
  using ButtonItem_serialize_deserialize_noop
      [where h = "\<lambda>r. ButtonItem_init ButtonItem (PStr ''Run'') (PCallable 0) PNone PNone (PStr [])"
         and self = 0 and dyn = "\<lambda>f r i. Inl TypeError" and inst = "Map.empty(0 \<mapsto> PInt 3)"
         and writer = "[Single (PInt 1)]"]
    ButtonItem_serialize_deserialize_noop
      [where h = "\<lambda>r. ButtonItem_init DictItem (PStr ''Run'') (PCallable 0) (PStr ''dictedit.png'')
           PNone (PStr [])"
         and self = 0 and dyn = "\<lambda>f r i. Inl TypeError" and inst = Map.empty
         and reader = "[Single (PInt 1)]"]
  by (simp add: ButtonItem_init_def item_fields_set_prop DataItem_init_def)

section \<open>Several files to open\<close>

lemma files_loop_False: "files_loop fs False paths = Inr False"
  by (induction paths) auto

lemma files_loop_all:
  "map path_text ps = map Some paths \<Longrightarrow>
   files_loop fs b ps = Inr (b \<and> list_all (\<lambda>p. os_path_exists fs p \<and> os_path_isfile fs p) paths)"
proof (induction ps arbitrary: b paths)
  case Nil
  then show ?case by simp
next
  case (Cons p ps)
  then obtain q qs where paths: "paths = q # qs" and q: "path_text p = Some q"
    and rest: "map path_text ps = map Some qs"
    by (cases paths) auto
  show ?case
  proof (cases b)
    case False
    then show ?thesis by (simp add: files_loop_False)
  next
    case True
    then show ?thesis using Cons.IH [OF rest] paths q by simp
  qed
qed

text \<open>
  C5. For every sequence of paths (a list or a tuple of text), \<^verbatim>\<open>FilesOpenItem.check_value\<close>
  is true exactly when every path exists and is a regular file; the empty sequence is
  valid, and a sequence holding a path that does not exist is not.
\<close>

theorem FilesOpenItem_check_value_all_files:
  assumes "v = PList ps \<or> v = PTuple ps" and "map path_text ps = map Some paths"
  shows "FilesOpenItem_check_value fs self v
      = Inr (list_all (\<lambda>p. os_path_exists fs p \<and> os_path_isfile fs p) paths)
    \<and> (ps = [] \<longrightarrow> FilesOpenItem_check_value fs self v = Inr True)
    \<and> (\<forall>p \<in> set paths. fs p = None \<longrightarrow> FilesOpenItem_check_value fs self v = Inr False)"
proof -
  have eq: "FilesOpenItem_check_value fs self v
      = Inr (list_all (\<lambda>p. os_path_exists fs p \<and> os_path_isfile fs p) paths)"
    using assms by (auto simp: FilesOpenItem_check_value_def files_loop_all)
  moreover have "ps = [] \<longrightarrow> FilesOpenItem_check_value fs self v = Inr True"
    using eq assms(2) by auto
  moreover have "\<forall>p \<in> set paths. fs p = None \<longrightarrow> FilesOpenItem_check_value fs self v = Inr False"
    using eq by (auto simp: list_all_iff os_path_exists_def)
  ultimately show ?thesis by blast
qed

theorem FilesOpenItem_check_value_all_files_witness:
  "FilesOpenItem_check_value (Map.empty(''/etc/hosts'' \<mapsto> RegularFile, ''/etc'' \<mapsto> Directory))
       (DataItem_init FilesOpenItem (PStr ''files'') PNone (PStr [])) (PList [])
     = Inr True
   \<and> FilesOpenItem_check_value (Map.empty(''/etc/hosts'' \<mapsto> RegularFile, ''/etc'' \<mapsto> Directory))
       (DataItem_init FilesOpenItem (PStr ''files'') PNone (PStr [])) (PList [PStr ''/nonexistent''])
     = Inr False
   \<and> FilesOpenItem_check_value (Map.empty(''/etc/hosts'' \<mapsto> RegularFile, ''/etc'' \<mapsto> Directory))
       (DataItem_init FilesOpenItem (PStr ''files'') PNone (PStr [])) (PList [PStr ''/etc/hosts''])
     = Inr True
   \<and> FilesOpenItem_check_value (Map.empty(''/etc/hosts'' \<mapsto> RegularFile, ''/etc'' \<mapsto> Directory))
       (DataItem_init FilesOpenItem (PStr ''files'') PNone (PStr []))
       (PList [PStr ''/etc/hosts'', PUnicode ''/etc''])
     = Inr False"
proof -
  have a: "PList [] = PList [] \<or> PList [] = PTuple []" by simp
  have b: "PList [PStr ''/nonexistent''] = PList [PStr ''/nonexistent'']
      \<or> PList [PStr ''/nonexistent''] = PTuple [PStr ''/nonexistent'']" by simp
  have c: "PList [PStr ''/etc/hosts''] = PList [PStr ''/etc/hosts'']
      \<or> PList [PStr ''/etc/hosts''] = PTuple [PStr ''/etc/hosts'']" by simp
  have d: "PList [PStr ''/etc/hosts'', PUnicode ''/etc''] = PList [PStr ''/etc/hosts'', PUnicode ''/etc'']
      \<or> PList [PStr ''/etc/hosts'', PUnicode ''/etc''] = PTuple [PStr ''/etc/hosts'', PUnicode ''/etc'']"
    by simp
  show ?thesis
    using FilesOpenItem_check_value_all_files [OF a, of "[]"]
      FilesOpenItem_check_value_all_files [OF b, of "[''/nonexistent'']"]
      FilesOpenItem_check_value_all_files [OF c, of "[''/etc/hosts'']"]
      FilesOpenItem_check_value_all_files [OF d, of "[''/etc/hosts'', ''/etc'']"]
    by (simp add: os_path_exists_def os_path_isfile_def)
qed

section \<open>Layout helpers of the multiple choice descriptor\<close>

lemma set_prop_shape_frame:
  "item_class (set_prop obj ''display'' [(''shape'', shape)]) = item_class obj
   \<and> item_label (set_prop obj ''display'' [(''shape'', shape)]) = item_label obj
   \<and> item_default (set_prop obj ''display'' [(''shape'', shape)]) = item_default obj
   \<and> item_help (set_prop obj ''display'' [(''shape'', shape)]) = item_help obj
   \<and> (\<forall>realm. realm \<noteq> ''display'' \<longrightarrow>
        item_props (set_prop obj ''display'' [(''shape'', shape)]) realm = item_props obj realm)
   \<and> (\<forall>name. name \<noteq> ''shape'' \<longrightarrow>
        group_of (set_prop obj ''display'' [(''shape'', shape)]) ''display'' name
          = group_of obj ''display'' name)
   \<and> get_prop (set_prop obj ''display'' [(''shape'', shape)]) ''display'' ''shape'' = Inr shape"
  by (simp add: item_fields_set_prop get_prop_set_prop_single group_of_set_prop) (simp add: set_prop_def)

text \<open>
  C10. \<^verbatim>\<open>horizontal(n)\<close> and \<^verbatim>\<open>vertical(n)\<close> return the reference \<^verbatim>\<open>self\<close> they were
  called on, leave every other object of the heap alone, and in the object itself
  change nothing but the attribute \<^verbatim>\<open>shape\<close> of the display group, which becomes
  \<^verbatim>\<open>(n, -1)\<close> and \<^verbatim>\<open>(-1, n)\<close>: the class, label, default and help, every other group
  (the data group with the choice list among them) and every other attribute of the
  display group are as before.
\<close>

theorem MultipleChoiceItem_layout_frame:
  assumes "layout = MultipleChoiceItem_horizontal \<and> shape = PTuple [n, PInt (- 1)]
         \<or> layout = MultipleChoiceItem_vertical \<and> shape = PTuple [PInt (- 1), n]"
  shows "fst (layout self n h) = self
    \<and> (\<forall>r. r \<noteq> self \<longrightarrow> snd (layout self n h) r = h r)
    \<and> item_class (snd (layout self n h) self) = item_class (h self)
    \<and> item_label (snd (layout self n h) self) = item_label (h self)
    \<and> item_default (snd (layout self n h) self) = item_default (h self)
    \<and> item_help (snd (layout self n h) self) = item_help (h self)
    \<and> (\<forall>realm. realm \<noteq> ''display'' \<longrightarrow>
         item_props (snd (layout self n h) self) realm = item_props (h self) realm)
    \<and> (\<forall>name. get_prop (snd (layout self n h) self) ''data'' name = get_prop (h self) ''data'' name)
    \<and> (\<forall>name. name \<noteq> ''shape'' \<longrightarrow>
         group_of (snd (layout self n h) self) ''display'' name = group_of (h self) ''display'' name)
    \<and> get_prop (snd (layout self n h) self) ''display'' ''shape'' = Inr shape"
proof -
  have new: "snd (layout self n h) self = set_prop (h self) ''display'' [(''shape'', shape)]"
    and other: "\<forall>r. r \<noteq> self \<longrightarrow> snd (layout self n h) r = h r"
    and same: "fst (layout self n h) = self"
    using assms
    by (auto simp: MultipleChoiceItem_horizontal_def MultipleChoiceItem_vertical_def)
  have data: "\<forall>name. get_prop (set_prop (h self) ''display'' [(''shape'', shape)]) ''data'' name
      = get_prop (h self) ''data'' name"
    by (simp add: get_prop_set_prop_other_realm)
  show ?thesis
    unfolding new using set_prop_shape_frame [of "h self" shape] other same data
    by (simp add: new)
qed

theorem MultipleChoiceItem_layout_frame_witness:
  "fst (MultipleChoiceItem_horizontal 0 (PInt 2)
      (\<lambda>r. set_prop (set_prop (DataItem_init MultipleChoiceItem (PStr ''Number'') (PTuple []) (PStr []))
         ''data'' [(''choices'', PList [PTuple [PInt 0, PUnicode ''1'', PNone]])])
         ''display'' [(''shape'', PTuple [PInt 1, PInt (- 1)])])) = 0
   \<and> get_prop (snd (MultipleChoiceItem_horizontal 0 (PInt 2)
      (\<lambda>r. set_prop (set_prop (DataItem_init MultipleChoiceItem (PStr ''Number'') (PTuple []) (PStr []))
         ''data'' [(''choices'', PList [PTuple [PInt 0, PUnicode ''1'', PNone]])])
         ''display'' [(''shape'', PTuple [PInt 1, PInt (- 1)])])) 0) ''display'' ''shape''
     = Inr (PTuple [PInt 2, PInt (- 1)])
   \<and> get_prop (snd (MultipleChoiceItem_horizontal 0 (PInt 2)
      (\<lambda>r. set_prop (set_prop (DataItem_init MultipleChoiceItem (PStr ''Number'') (PTuple []) (PStr []))
         ''data'' [(''choices'', PList [PTuple [PInt 0, PUnicode ''1'', PNone]])])
         ''display'' [(''shape'', PTuple [PInt 1, PInt (- 1)])])) 0) ''data'' ''choices''
     = Inr (PList [PTuple [PInt 0, PUnicode ''1'', PNone]])
   \<and> get_prop (snd (MultipleChoiceItem_vertical 0 (PInt 3)
      (\<lambda>r. set_prop (set_prop (DataItem_init MultipleChoiceItem (PStr ''Number'') (PTuple []) (PStr []))
         ''data'' [(''choices'', PList [PTuple [PInt 0, PUnicode ''1'', PNone]])])
         ''display'' [(''shape'', PTuple [PInt 1, PInt (- 1)])])) 0) ''display'' ''shape''
     = Inr (PTuple [PInt (- 1), PInt 3])"
  using MultipleChoiceItem_layout_frame
      [where layout = MultipleChoiceItem_horizontal and n = "PInt 2" and self = 0
         and shape = "PTuple [PInt 2, PInt (- 1)]"
         and h = "\<lambda>r. set_prop (set_prop (DataItem_init MultipleChoiceItem (PStr ''Number'') (PTuple [])
             (PStr [])) ''data'' [(''choices'', PList [PTuple [PInt 0, PUnicode ''1'', PNone]])])
             ''display'' [(''shape'', PTuple [PInt 1, PInt (- 1)])]"]
    MultipleChoiceItem_layout_frame
      [where layout = MultipleChoiceItem_vertical and n = "PInt 3" and self = 0
         and shape = "PTuple [PInt (- 1), PInt 3]"
         and h = "\<lambda>r. set_prop (set_prop (DataItem_init MultipleChoiceItem (PStr ''Number'') (PTuple [])
             (PStr [])) ''data'' [(''choices'', PList [PTuple [PInt 0, PUnicode ''1'', PNone]])])
             ''display'' [(''shape'', PTuple [PInt 1, PInt (- 1)])]"]
  by (simp add: get_prop_set_prop_other_realm get_prop_set_prop_single)

section \<open>Normalizing a choice list\<close>

lemma choice_entry_Inr:
  "choice_entry u8 key label img = Inr entry \<longleftrightarrow>
     (\<exists>label'. entry = PTuple [key, label', img]
        \<and> (case label of PStr s \<Rightarrow> u8 s = Inr label' | _ \<Rightarrow> label' = label))"
  by (cases label) (auto simp: choice_entry_def split: sum.splits)

lemma normalize_choice_triple:
  "normalize_choice cls u8 idx choice = Inr entry \<Longrightarrow> \<exists>key label img. entry = PTuple [key, label, img]"
proof (cases "cls = ImageChoiceItem")
  case True
  assume "normalize_choice cls u8 idx choice = Inr entry"
  with True have "ImageChoiceItem_normalize_choice u8 idx choice = Inr entry"
    by (simp add: normalize_choice_def)
  then show ?thesis
    by (induction u8 idx choice rule: ImageChoiceItem_normalize_choice.induct)
       (auto simp: choice_entry_Inr)
next
  case False
  assume "normalize_choice cls u8 idx choice = Inr entry"
  with False have "ChoiceItem_normalize_choice u8 idx choice = Inr entry"
    by (simp add: normalize_choice_def)
  then show ?thesis
    by (induction u8 idx choice rule: ChoiceItem_normalize_choice.induct)
       (auto simp: choice_entry_Inr)
qed

lemma ChoiceItem_normalize_choice_pair:
  "ChoiceItem_normalize_choice u8 idx (PTuple [key, label]) = choice_entry u8 key label PNone"
  by simp

lemma ChoiceItem_normalize_choice_bare:
  "\<forall>xs. choice \<noteq> PTuple xs \<Longrightarrow>
   ChoiceItem_normalize_choice u8 idx choice = choice_entry u8 (PInt (int idx)) choice PNone"
  by (cases choice) auto

lemma normalize_from_nth:
  "normalize_from nrm i0 cs = Inr entries \<Longrightarrow>
   length entries = length cs \<and> (\<forall>i < length cs. nrm (i0 + i) (cs ! i) = Inr (entries ! i))"
proof (induction cs arbitrary: i0 entries)
  case Nil
  then show ?case by simp
next
  case (Cons c cs)
  from Cons.prems obtain e es where e: "nrm i0 c = Inr e"
    and es: "normalize_from nrm (Suc i0) cs = Inr es" and entries: "entries = e # es"
    by (auto split: sum.splits)
  from Cons.IH [OF es] have len: "length es = length cs"
    and nth: "\<forall>i < length cs. nrm (Suc i0 + i) (cs ! i) = Inr (es ! i)"
    by auto
  show ?case
  proof (intro conjI allI impI)
    show "length entries = length (c # cs)" using len entries by simp
  next
    fix i assume "i < length (c # cs)"
    then show "nrm (i0 + i) ((c # cs) ! i) = Inr (entries ! i)"
      using e nth entries by (cases i) auto
  qed
qed

lemma normalize_from_total:
  "(\<forall>i < length cs. \<exists>e. nrm (i0 + i) (cs ! i) = Inr e) \<Longrightarrow>
   \<exists>entries. normalize_from nrm i0 cs = Inr entries"
proof (induction cs arbitrary: i0)
  case Nil
  then show ?case by simp
next
  case (Cons c cs)
  from Cons.prems have "\<exists>e. nrm (i0 + 0) ((c # cs) ! 0) = Inr e" by blast
  then obtain e where e: "nrm i0 c = Inr e" by auto
  have "\<forall>i < length cs. \<exists>e. nrm (Suc i0 + i) (cs ! i) = Inr e"
  proof (intro allI impI)
    fix i assume "i < length cs"
    then have "Suc i < length (c # cs)" by simp
    with Cons.prems have "\<exists>e. nrm (i0 + Suc i) ((c # cs) ! Suc i) = Inr e" by blast
    then show "\<exists>e. nrm (Suc i0 + i) (cs ! i) = Inr e" by simp
  qed
  from Cons.IH [OF this] obtain es where "normalize_from nrm (Suc i0) cs = Inr es" by blast
  with e show ?case by simp
qed

lemma choices_data_static:
  assumes "v = PList cs \<or> v = PTuple cs"
  shows "choices_data cls u8 v =
     (case normalize_from (normalize_choice cls u8) 0 cs of
        Inl e \<Rightarrow> Inl e | Inr entries \<Rightarrow> Inr (PList entries))"
  using assms by (auto simp: choices_data_def)

lemma ChoiceItem_normalize_choice_other_tuple:
  "length xs \<noteq> 2 \<Longrightarrow> ChoiceItem_normalize_choice decode idx (PTuple xs) = Inl ValueError"
  by (cases xs; cases "tl xs"; cases "tl (tl xs)") auto

text \<open>
  C7, as stated, fails: not every static choice sequence is normalized. An entry that
  is a tuple is unpacked into key and label, so a sequence with a tuple of three
  elements (the form of an entry of the image choice descriptor) is not mapped to
  triples at all: \<^verbatim>\<open>ValueError\<close> is raised.
\<close>

theorem ChoiceItem_normalize_positional_counterexample:
  "choices_data ChoiceItem (\<lambda>s. Inr (PUnicode s))
       (PList [PTuple [PStr ''a'', PStr ''Alpha'', PStr ''a.png'']])
     = Inl ValueError"
  by (simp add: choices_data_def normalize_choice_def)

text \<open>
  C7, amended. For a static choice sequence given to a choice descriptor other than
  the image one: whenever the normalization returns, it returns a list with one triple
  (key, label, icon) for each entry, by positional fallback: a (key, label) tuple keeps
  its key, any entry that is not a tuple is a label and gets its zero-based index as
  key, the icon is \<^verbatim>\<open>None\<close>, and a \<^verbatim>\<open>str\<close> label is the result of \<^verbatim>\<open>utf8_to_unicode\<close>.
  The normalization returns when every entry is a tuple of two elements or not a tuple
  and \<^verbatim>\<open>utf8_to_unicode\<close> raises nothing; it returns nothing when some entry is a tuple
  of another length. The labels \<^verbatim>\<open>["X", "Y"]\<close> normalize to
  \<^verbatim>\<open>[(0, X, None), (1, Y, None)]\<close>.
\<close>

theorem ChoiceItem_normalize_positional:
  assumes "cls \<noteq> ImageChoiceItem" and "v = PList cs \<or> v = PTuple cs"
  shows "(\<forall>data. choices_data cls decode v = Inr data \<longrightarrow>
       (\<exists>entries. data = PList entries \<and> length entries = length cs \<and>
          (\<forall>i < length cs.
             (\<forall>key label. cs ! i = PTuple [key, label] \<longrightarrow>
                (\<exists>label'. entries ! i = PTuple [key, label', PNone]
                   \<and> (case label of PStr s \<Rightarrow> decode s = Inr label' | _ \<Rightarrow> label' = label)))
           \<and> ((\<forall>xs. cs ! i \<noteq> PTuple xs) \<longrightarrow>
                (\<exists>label'. entries ! i = PTuple [PInt (int i), label', PNone]
                   \<and> (case cs ! i of PStr s \<Rightarrow> decode s = Inr label' | _ \<Rightarrow> label' = cs ! i))))))
    \<and> ((\<forall>c \<in> set cs. (\<exists>key label. c = PTuple [key, label]) \<or> (\<forall>xs. c \<noteq> PTuple xs))
         \<and> (\<forall>s. \<exists>l. decode s = Inr l)
       \<longrightarrow> (\<exists>data. choices_data cls decode v = Inr data))
    \<and> (\<forall>x y. decode ''X'' = Inr x \<and> decode ''Y'' = Inr y \<longrightarrow>
         choices_data cls decode (PList [PStr ''X'', PStr ''Y''])
           = Inr (PList [PTuple [PInt 0, x, PNone], PTuple [PInt 1, y, PNone]]))
    \<and> ((\<exists>c \<in> set cs. \<exists>xs. c = PTuple xs \<and> length xs \<noteq> 2) \<longrightarrow>
         (\<forall>data. choices_data cls decode v \<noteq> Inr data))"
proof (intro conjI allI impI)
  fix data assume ok: "choices_data cls decode v = Inr data"
  then obtain entries where data: "data = PList entries"
    and nf: "normalize_from (normalize_choice cls decode) 0 cs = Inr entries"
    using assms(2) by (auto simp: choices_data_static [OF assms(2)] split: sum.splits)
  from normalize_from_nth [OF nf] assms(1)
  have len: "length entries = length cs"
    and nth: "\<forall>i < length cs. ChoiceItem_normalize_choice decode i (cs ! i) = Inr (entries ! i)"
    by (auto simp: normalize_choice_def)
  have "\<forall>i < length cs.
      (\<forall>key label. cs ! i = PTuple [key, label] \<longrightarrow>
         (\<exists>label'. entries ! i = PTuple [key, label', PNone]
            \<and> (case label of PStr s \<Rightarrow> decode s = Inr label' | _ \<Rightarrow> label' = label)))
    \<and> ((\<forall>xs. cs ! i \<noteq> PTuple xs) \<longrightarrow>
         (\<exists>label'. entries ! i = PTuple [PInt (int i), label', PNone]
            \<and> (case cs ! i of PStr s \<Rightarrow> decode s = Inr label' | _ \<Rightarrow> label' = cs ! i)))"
  proof (intro allI impI conjI)
    fix i key label assume i: "i < length cs" and pair: "cs ! i = PTuple [key, label]"
    from nth i pair have "choice_entry decode key label PNone = Inr (entries ! i)" by auto
    then show "\<exists>label'. entries ! i = PTuple [key, label', PNone]
        \<and> (case label of PStr s \<Rightarrow> decode s = Inr label' | _ \<Rightarrow> label' = label)"
      by (simp add: choice_entry_Inr)
  next
    fix i assume i: "i < length cs" and bare: "\<forall>xs. cs ! i \<noteq> PTuple xs"
    from nth i ChoiceItem_normalize_choice_bare [OF bare]
    have "choice_entry decode (PInt (int i)) (cs ! i) PNone = Inr (entries ! i)" by auto
    then show "\<exists>label'. entries ! i = PTuple [PInt (int i), label', PNone]
        \<and> (case cs ! i of PStr s \<Rightarrow> decode s = Inr label' | _ \<Rightarrow> label' = cs ! i)"
      by (simp add: choice_entry_Inr)
  qed
  with data len
  show "\<exists>entries. data = PList entries \<and> length entries = length cs \<and>
      (\<forall>i < length cs.
         (\<forall>key label. cs ! i = PTuple [key, label] \<longrightarrow>
            (\<exists>label'. entries ! i = PTuple [key, label', PNone]
               \<and> (case label of PStr s \<Rightarrow> decode s = Inr label' | _ \<Rightarrow> label' = label)))
       \<and> ((\<forall>xs. cs ! i \<noteq> PTuple xs) \<longrightarrow>
            (\<exists>label'. entries ! i = PTuple [PInt (int i), label', PNone]
               \<and> (case cs ! i of PStr s \<Rightarrow> decode s = Inr label' | _ \<Rightarrow> label' = cs ! i))))"
    by blast
next
  assume shaped: "(\<forall>c \<in> set cs. (\<exists>key label. c = PTuple [key, label]) \<or> (\<forall>xs. c \<noteq> PTuple xs))
      \<and> (\<forall>s. \<exists>l. decode s = Inr l)"
  have dec: "\<exists>l. decode s = Inr l" for s
    using shaped by blast
  have entry: "\<exists>e. choice_entry decode key label PNone = Inr e" for key label
  proof (cases label)
    case (PStr s)
    with dec [of s] show ?thesis by (auto simp: choice_entry_def)
  qed (auto simp: choice_entry_def)
  have "\<forall>i < length cs. \<exists>e. normalize_choice cls decode (0 + i) (cs ! i) = Inr e"
  proof (intro allI impI)
    fix i assume "i < length cs"
    then have "cs ! i \<in> set cs" by simp
    with shaped have "(\<exists>key label. cs ! i = PTuple [key, label]) \<or> (\<forall>xs. cs ! i \<noteq> PTuple xs)"
      by blast
    then show "\<exists>e. normalize_choice cls decode (0 + i) (cs ! i) = Inr e"
      using entry assms(1) ChoiceItem_normalize_choice_bare [of "cs ! i" decode i]
      by (auto simp: normalize_choice_def)
  qed
  from normalize_from_total [OF this]
  show "\<exists>data. choices_data cls decode v = Inr data"
    by (auto simp: choices_data_static [OF assms(2)])
next
  fix x y assume "decode ''X'' = Inr x \<and> decode ''Y'' = Inr y"
  then show "choices_data cls decode (PList [PStr ''X'', PStr ''Y''])
      = Inr (PList [PTuple [PInt 0, x, PNone], PTuple [PInt 1, y, PNone]])"
    using assms(1) by (simp add: choices_data_def normalize_choice_def choice_entry_def)
next
  fix data
  assume "\<exists>c \<in> set cs. \<exists>xs. c = PTuple xs \<and> length xs \<noteq> 2"
  then obtain i xs where i: "i < length cs" and c: "cs ! i = PTuple xs" and len: "length xs \<noteq> 2"
    by (auto simp: in_set_conv_nth)
  show "choices_data cls decode v \<noteq> Inr data"
  proof
    assume "choices_data cls decode v = Inr data"
    then obtain entries where nf: "normalize_from (normalize_choice cls decode) 0 cs = Inr entries"
      by (auto simp: choices_data_static [OF assms(2)] split: sum.splits)
    from normalize_from_nth [OF nf] i assms(1)
    have "ChoiceItem_normalize_choice decode i (cs ! i) = Inr (entries ! i)"
      by (auto simp: normalize_choice_def)
    with c ChoiceItem_normalize_choice_other_tuple [OF len, of decode i]
    show False by simp
  qed
qed

theorem ChoiceItem_normalize_positional_witness:
  "choices_data ChoiceItem (\<lambda>s. Inr (PUnicode s))
       (PList [PTuple [PStr ''a'', PStr ''Alpha''], PStr ''Y''])
     = Inr (PList [PTuple [PStr ''a'', PUnicode ''Alpha'', PNone],
                   PTuple [PInt 1, PUnicode ''Y'', PNone]])
   \<and> choices_data ChoiceItem (\<lambda>s. Inr (PUnicode s)) (PList [PStr ''X'', PStr ''Y''])
     = Inr (PList [PTuple [PInt 0, PUnicode ''X'', PNone], PTuple [PInt 1, PUnicode ''Y'', PNone]])"
proof -
  let ?cs = "[PTuple [PStr ''a'', PStr ''Alpha''], PStr ''Y'']"
  have cls: "ChoiceItem \<noteq> ImageChoiceItem" by simp
  have seq: "PList ?cs = PList ?cs \<or> PList ?cs = PTuple ?cs" by simp
  note t = ChoiceItem_normalize_positional
      [where decode = "\<lambda>s. Inr (PUnicode s)", OF cls seq]
  have shaped: "(\<forall>c \<in> set ?cs. (\<exists>key label. c = PTuple [key, label]) \<or> (\<forall>xs. c \<noteq> PTuple xs))
      \<and> (\<forall>s. \<exists>l. (Inr (PUnicode s) :: pyexc + pyval) = Inr l)"
    by simp
  from t [THEN conjunct2, THEN conjunct1, THEN mp, OF shaped]
  obtain data where data: "choices_data ChoiceItem (\<lambda>s. Inr (PUnicode s)) (PList ?cs) = Inr data"
    by blast
  from t [THEN conjunct1, rule_format, OF data]
  obtain entries where entries: "data = PList entries" and len: "length entries = length ?cs"
    and nth: "\<forall>i < length ?cs.
       (\<forall>key label. ?cs ! i = PTuple [key, label] \<longrightarrow>
          (\<exists>label'. entries ! i = PTuple [key, label', PNone]
             \<and> (case label of PStr s \<Rightarrow> (Inr (PUnicode s) :: pyexc + pyval) = Inr label'
                | _ \<Rightarrow> label' = label)))
     \<and> ((\<forall>xs. ?cs ! i \<noteq> PTuple xs) \<longrightarrow>
          (\<exists>label'. entries ! i = PTuple [PInt (int i), label', PNone]
             \<and> (case ?cs ! i of PStr s \<Rightarrow> (Inr (PUnicode s) :: pyexc + pyval) = Inr label'
                | _ \<Rightarrow> label' = ?cs ! i)))"
    by blast
  from nth [rule_format, of 0] have e0: "entries ! 0 = PTuple [PStr ''a'', PUnicode ''Alpha'', PNone]"
    by simp
  from nth [rule_format, of 1] have e1: "entries ! 1 = PTuple [PInt 1, PUnicode ''Y'', PNone]"
    by simp
  from len e0 e1 have "entries = [PTuple [PStr ''a'', PUnicode ''Alpha'', PNone],
      PTuple [PInt 1, PUnicode ''Y'', PNone]]"
    by (cases entries; cases "tl entries") auto
  with data entries
  have pair: "choices_data ChoiceItem (\<lambda>s. Inr (PUnicode s)) (PList ?cs)
      = Inr (PList [PTuple [PStr ''a'', PUnicode ''Alpha'', PNone],
                    PTuple [PInt 1, PUnicode ''Y'', PNone]])"
    by simp
  from t [THEN conjunct2, THEN conjunct2, THEN conjunct1]
  have labels: "choices_data ChoiceItem (\<lambda>s. Inr (PUnicode s)) (PList [PStr ''X'', PStr ''Y''])
      = Inr (PList [PTuple [PInt 0, PUnicode ''X'', PNone], PTuple [PInt 1, PUnicode ''Y'', PNone]])"
    by simp
  from pair labels show ?thesis by (rule conjI)
qed

section \<open>The default of a choice descriptor\<close>

lemma choices_data_static_entries:
  assumes "\<not> py_callable choices" and "choices_data cls decode choices = Inr data"
  shows "\<exists>entries. data = PList entries
      \<and> (\<forall>entry \<in> set entries. \<exists>key label img. entry = PTuple [key, label, img])"
proof -
  from assms obtain cs entries where "py_iter choices = Inr cs"
    and nf: "normalize_from (normalize_choice cls decode) 0 cs = Inr entries"
    and data: "data = PList entries"
    by (auto simp: choices_data_def split: sum.splits)
  from normalize_from_nth [OF nf]
  have len: "length entries = length cs"
    and nth: "\<forall>i < length cs. normalize_choice cls decode (0 + i) (cs ! i) = Inr (entries ! i)"
    by auto
  have "\<exists>key label img. entry = PTuple [key, label, img]" if "entry \<in> set entries" for entry
  proof -
    from that obtain i where "i < length entries" and "entries ! i = entry"
      by (auto simp: in_set_conv_nth)
    with len nth have "normalize_choice cls decode (0 + i) (cs ! i) = Inr entry" by auto
    then show ?thesis by (rule normalize_choice_triple)
  qed
  with data show ?thesis by blast
qed

text \<open>
  C6. A choice descriptor constructed with the sentinel \<^verbatim>\<open>FirstChoice\<close> for its default:
  with a static sequence of choices, the default of the descriptor is the key of the
  first entry of the normalized list, and the construction succeeds whenever the
  normalized list is not empty; with a function for the choices, the construction
  succeeds and the default is \<^verbatim>\<open>None\<close>. For \<^verbatim>\<open>[("a", "Alpha"), ("b", "Beta")]\<close> the
  default is \<^verbatim>\<open>"a"\<close>.
\<close>

theorem ChoiceItem_first_choice_default:
  "(\<not> py_callable choices \<longrightarrow>
      (\<forall>self. ChoiceItem_init cls decode label choices PFirstChoice helptext = Inr self \<longrightarrow>
         (\<exists>key lab img entries.
            get_prop self ''data'' ''choices'' = Inr (PList (PTuple [key, lab, img] # entries))
            \<and> item_default self = key)))
   \<and> (\<not> py_callable choices \<longrightarrow>
      (\<forall>entry entries. choices_data cls decode choices = Inr (PList (entry # entries)) \<longrightarrow>
         (\<exists>self. ChoiceItem_init cls decode label choices PFirstChoice helptext = Inr self)))
   \<and> (py_callable choices \<longrightarrow>
      (\<exists>self. ChoiceItem_init cls decode label choices PFirstChoice helptext = Inr self
         \<and> item_default self = PNone
         \<and> get_prop self ''data'' ''choices'' = Inr (PItemProperty choices)))
   \<and> (\<forall>a b. decode ''Alpha'' = Inr a \<and> decode ''Beta'' = Inr b \<longrightarrow>
      (\<exists>self. ChoiceItem_init ChoiceItem decode label
           (PList [PTuple [PStr ''a'', PStr ''Alpha''], PTuple [PStr ''b'', PStr ''Beta'']])
           PFirstChoice helptext = Inr self
         \<and> item_default self = PStr ''a''))"
proof (intro conjI allI impI)
  fix self
  assume static: "\<not> py_callable choices"
    and ok: "ChoiceItem_init cls decode label choices PFirstChoice helptext = Inr self"
  from ok obtain data d where data: "choices_data cls decode choices = Inr data"
    and d: "choice_default choices data PFirstChoice = Inr d"
    and self: "self = set_prop (DataItem_init cls label d helptext) ''data'' [(''choices'', data)]"
    by (auto simp: ChoiceItem_init_def split: sum.splits)
  from choices_data_static_entries [OF static data] obtain entries
    where entries: "data = PList entries"
      and triples: "\<forall>entry \<in> set entries. \<exists>key lab img. entry = PTuple [key, lab, img]"
    by blast
  from d static entries obtain first rest where cons: "entries = first # rest"
    by (cases entries) (auto simp: choice_default_def)
  with triples obtain key lab img where first: "first = PTuple [key, lab, img]" by auto
  from d static entries cons first have "d = key"
    by (simp add: choice_default_def)
  with self entries cons first
  show "\<exists>key lab img entries.
      get_prop self ''data'' ''choices'' = Inr (PList (PTuple [key, lab, img] # entries))
      \<and> item_default self = key"
    by (simp add: get_prop_set_prop_single item_fields_set_prop DataItem_init_def)
next
  fix entry entries
  assume static: "\<not> py_callable choices"
    and data: "choices_data cls decode choices = Inr (PList (entry # entries))"
  from choices_data_static_entries [OF static data]
  obtain key lab img where "entry = PTuple [key, lab, img]" by auto
  with static data
  show "\<exists>self. ChoiceItem_init cls decode label choices PFirstChoice helptext = Inr self"
    by (simp add: ChoiceItem_init_def choice_default_def)
next
  assume "py_callable choices"
  then show "\<exists>self. ChoiceItem_init cls decode label choices PFirstChoice helptext = Inr self
      \<and> item_default self = PNone
      \<and> get_prop self ''data'' ''choices'' = Inr (PItemProperty choices)"
    by (simp add: ChoiceItem_init_def choices_data_def choice_default_def
        get_prop_set_prop_single item_fields_set_prop DataItem_init_def)
next
  fix a b assume "decode ''Alpha'' = Inr a \<and> decode ''Beta'' = Inr b"
  then show "\<exists>self. ChoiceItem_init ChoiceItem decode label
       (PList [PTuple [PStr ''a'', PStr ''Alpha''], PTuple [PStr ''b'', PStr ''Beta'']])
       PFirstChoice helptext = Inr self
     \<and> item_default self = PStr ''a''"
    by (simp add: ChoiceItem_init_def choices_data_def choice_default_def normalize_choice_def
        choice_entry_def item_fields_set_prop DataItem_init_def)
qed

theorem ChoiceItem_first_choice_default_witness:
  "(\<exists>self. ChoiceItem_init ChoiceItem (\<lambda>s. Inr (PUnicode s)) (PStr ''Kind'')
        (PList [PTuple [PStr ''a'', PStr ''Alpha''], PTuple [PStr ''b'', PStr ''Beta'']])
        PFirstChoice (PStr []) = Inr self
      \<and> item_default self = PStr ''a'')
   \<and> (\<exists>self. ChoiceItem_init ChoiceItem (\<lambda>s. Inr (PUnicode s)) (PStr ''Kind'')
        (PCallable 0) PFirstChoice (PStr []) = Inr self
      \<and> item_default self = PNone)"
proof -
  note all = ChoiceItem_first_choice_default
      [where cls = ChoiceItem and decode = "\<lambda>s. Inr (PUnicode s)" and label = "PStr ''Kind''"
         and choices = "PCallable 0" and helptext = "PStr []"]
  from all [THEN conjunct2, THEN conjunct2, THEN conjunct1]
  obtain self where "ChoiceItem_init ChoiceItem (\<lambda>s. Inr (PUnicode s)) (PStr ''Kind'')
      (PCallable 0) PFirstChoice (PStr []) = Inr self" and "item_default self = PNone"
    by auto
  then have dynamic: "\<exists>self. ChoiceItem_init ChoiceItem (\<lambda>s. Inr (PUnicode s)) (PStr ''Kind'')
      (PCallable 0) PFirstChoice (PStr []) = Inr self \<and> item_default self = PNone"
    by blast
  from all [THEN conjunct2, THEN conjunct2, THEN conjunct2]
  have static: "\<exists>self. ChoiceItem_init ChoiceItem (\<lambda>s. Inr (PUnicode s)) (PStr ''Kind'')
        (PList [PTuple [PStr ''a'', PStr ''Alpha''], PTuple [PStr ''b'', PStr ''Beta'']])
        PFirstChoice (PStr []) = Inr self
      \<and> item_default self = PStr ''a''"
    by simp
  from static dynamic show ?thesis by (rule conjI)
qed

section \<open>Python equality is symmetric and transitive\<close>

lemma fl_eq_sym: "fl_eq x y \<Longrightarrow> fl_eq y x"
  by (cases x; cases y) auto

lemma fl_eq_trans: "fl_eq x y \<Longrightarrow> fl_eq y z \<Longrightarrow> fl_eq x z"
  by (cases x; cases y; cases z) auto

lemma py_eq_number:
  "as_number a = Some x \<Longrightarrow> py_eq a b \<longleftrightarrow> (\<exists>y. as_number b = Some y \<and> fl_eq x y)"
  by (cases a; cases "as_number b") auto

lemma py_eq_not_number:
  "py_eq a b \<Longrightarrow> as_number a = None \<Longrightarrow> as_number b = None"
  by (cases a; cases b) (auto split: pyval.splits)

lemma py_eq_sym: "py_eq a b \<Longrightarrow> py_eq b a"
proof (induction a arbitrary: b)
  case (PTuple xs)
  from PTuple.prems obtain ys where b: "b = PTuple ys"
    and all: "list_all2 (\<lambda>x y. x = y \<or> py_eq x y) xs ys"
    by (cases b) auto
  have "list_all2 (\<lambda>y x. y = x \<or> py_eq y x) ys xs"
    unfolding list_all2_conv_all_nth
  proof (intro conjI allI impI)
    show "length ys = length xs" using all by (simp add: list_all2_lengthD)
  next
    fix i assume i: "i < length ys"
    with all have "xs ! i = ys ! i \<or> py_eq (xs ! i) (ys ! i)"
      by (simp add: list_all2_conv_all_nth)
    moreover from i all have "xs ! i \<in> set xs"
      by (simp add: list_all2_lengthD)
    ultimately show "ys ! i = xs ! i \<or> py_eq (ys ! i) (xs ! i)"
      using PTuple.IH by auto
  qed
  with b show ?case by simp
next
  case (PList xs)
  from PList.prems obtain ys where b: "b = PList ys"
    and all: "list_all2 (\<lambda>x y. x = y \<or> py_eq x y) xs ys"
    by (cases b) auto
  have "list_all2 (\<lambda>y x. y = x \<or> py_eq y x) ys xs"
    unfolding list_all2_conv_all_nth
  proof (intro conjI allI impI)
    show "length ys = length xs" using all by (simp add: list_all2_lengthD)
  next
    fix i assume i: "i < length ys"
    with all have "xs ! i = ys ! i \<or> py_eq (xs ! i) (ys ! i)"
      by (simp add: list_all2_conv_all_nth)
    moreover from i all have "xs ! i \<in> set xs"
      by (simp add: list_all2_lengthD)
    ultimately show "ys ! i = xs ! i \<or> py_eq (ys ! i) (xs ! i)"
      using PList.IH by auto
  qed
  with b show ?case by simp
next
  case (PBool x)
  then show ?case
    using py_eq_number [of "PBool x" _ b] py_eq_number [of b _ "PBool x"]
    by (cases "as_number b") (auto dest: fl_eq_sym)
next
  case (PInt x)
  then show ?case
    using py_eq_number [of "PInt x" _ b] py_eq_number [of b _ "PInt x"]
    by (cases "as_number b") (auto dest: fl_eq_sym)
next
  case (PLong x)
  then show ?case
    using py_eq_number [of "PLong x" _ b] py_eq_number [of b _ "PLong x"]
    by (cases "as_number b") (auto dest: fl_eq_sym)
next
  case (PFloat x)
  then show ?case
    using py_eq_number [of "PFloat x" _ b] py_eq_number [of b _ "PFloat x"]
    by (cases "as_number b") (auto dest: fl_eq_sym)
qed auto

lemma py_same_sym: "py_same a b \<Longrightarrow> py_same b a"
  by (auto simp: py_same_def dest: py_eq_sym)

lemma py_eq_trans_number:
  assumes "as_number a = Some x" and "py_eq a b" and "py_eq b c"
  shows "py_eq a c"
proof -
  from assms(1,2) obtain y where y: "as_number b = Some y" and xy: "fl_eq x y"
    by (auto simp: py_eq_number)
  from y assms(3) obtain z where z: "as_number c = Some z" and yz: "fl_eq y z"
    by (auto simp: py_eq_number)
  from xy yz have "fl_eq x z" by (rule fl_eq_trans)
  with z assms(1) show ?thesis by (auto simp: py_eq_number)
qed

lemma py_eq_trans: "py_eq a b \<Longrightarrow> py_eq b c \<Longrightarrow> py_eq a c"
proof (induction a arbitrary: b c)
  case (PTuple xs)
  from PTuple.prems obtain ys zs where b: "b = PTuple ys" and c: "c = PTuple zs"
    and xy: "list_all2 (\<lambda>x y. x = y \<or> py_eq x y) xs ys"
    and yz: "list_all2 (\<lambda>x y. x = y \<or> py_eq x y) ys zs"
    by (cases b; cases c) auto
  have "list_all2 (\<lambda>x y. x = y \<or> py_eq x y) xs zs"
    unfolding list_all2_conv_all_nth
  proof (intro conjI allI impI)
    show "length xs = length zs" using xy yz by (simp add: list_all2_lengthD)
  next
    fix i assume i: "i < length xs"
    with xy have 1: "xs ! i = ys ! i \<or> py_eq (xs ! i) (ys ! i)"
      by (simp add: list_all2_conv_all_nth)
    from i xy yz have 2: "ys ! i = zs ! i \<or> py_eq (ys ! i) (zs ! i)"
      by (simp add: list_all2_conv_all_nth)
    from i have "xs ! i \<in> set xs" by simp
    with 1 2 show "xs ! i = zs ! i \<or> py_eq (xs ! i) (zs ! i)"
      using PTuple.IH by auto
  qed
  with c show ?case by simp
next
  case (PList xs)
  from PList.prems obtain ys zs where b: "b = PList ys" and c: "c = PList zs"
    and xy: "list_all2 (\<lambda>x y. x = y \<or> py_eq x y) xs ys"
    and yz: "list_all2 (\<lambda>x y. x = y \<or> py_eq x y) ys zs"
    by (cases b; cases c) auto
  have "list_all2 (\<lambda>x y. x = y \<or> py_eq x y) xs zs"
    unfolding list_all2_conv_all_nth
  proof (intro conjI allI impI)
    show "length xs = length zs" using xy yz by (simp add: list_all2_lengthD)
  next
    fix i assume i: "i < length xs"
    with xy have 1: "xs ! i = ys ! i \<or> py_eq (xs ! i) (ys ! i)"
      by (simp add: list_all2_conv_all_nth)
    from i xy yz have 2: "ys ! i = zs ! i \<or> py_eq (ys ! i) (zs ! i)"
      by (simp add: list_all2_conv_all_nth)
    from i have "xs ! i \<in> set xs" by simp
    with 1 2 show "xs ! i = zs ! i \<or> py_eq (xs ! i) (zs ! i)"
      using PList.IH by auto
  qed
  with c show ?case by simp
next
  case (PBool x)
  show ?case
    by (rule py_eq_trans_number [OF _ PBool.prems]) simp
next
  case (PInt x)
  show ?case
    by (rule py_eq_trans_number [OF _ PInt.prems]) simp
next
  case (PLong x)
  show ?case
    by (rule py_eq_trans_number [OF _ PLong.prems]) simp
next
  case (PFloat x)
  show ?case
    by (rule py_eq_trans_number [OF _ PFloat.prems]) simp
qed auto

lemma py_same_trans: "py_same a b \<Longrightarrow> py_same b c \<Longrightarrow> py_same a c"
  by (auto simp: py_same_def dest: py_eq_trans)

section \<open>The boolean mask of a multiple choice\<close>

lemma serialize_flags_static:
  assumes "sel = PList xs \<or> sel = PTuple xs"
  shows "serialize_flags sel (map entry_of triples)
    = Inr (map (\<lambda>t. PBool (list_ex (py_same (fst t)) xs)) triples)"
proof (induction triples)
  case Nil
  show ?case by simp
next
  case (Cons t triples)
  obtain k l i where t: "t = (k, l, i)" by (cases t)
  have "py_in k sel = Inr (list_ex (py_same k) xs)"
    using assms by auto
  with Cons t show ?case by (simp add: unpack_def entry_of_def)
qed

lemma deserialize_keys_static:
  "deserialize_keys (PList (pre @ map entry_of triples)) (length pre)
     (map (\<lambda>t. PBool (P (fst t))) triples)
   = Inr (map fst (filter (\<lambda>t. P (fst t)) triples))"
proof (induction triples arbitrary: pre)
  case Nil
  show ?case by simp
next
  case (Cons t triples)
  obtain k l i where t: "t = (k, l, i)" by (cases t)
  have step: "deserialize_keys
       (PList ((pre @ [entry_of t]) @ map entry_of triples))
       (length (pre @ [entry_of t])) (map (\<lambda>t. PBool (P (fst t))) triples)
     = Inr (map fst (filter (\<lambda>t. P (fst t)) triples))"
    by (rule Cons.IH)
  have "py_getitem (entry_of t) 0 = Inr (fst t)"
    by (simp add: entry_of_def)
  with step show ?case by (simp add: nth_append)
qed

lemma get_prop_value_static:
  "get_prop (h self) realm name = Inr (PList entries) \<Longrightarrow>
   get_prop_value dyn h self realm inst name = Inr (PList entries)"
  by (simp add: get_prop_value_def)

lemma MultipleChoiceItem_serialize_static:
  assumes "get_prop (h self) ''data'' ''choices'' = Inr (PList (map entry_of triples))"
    and "get_value h self inst = PList xs \<or> get_value h self inst = PTuple xs"
  shows "MultipleChoiceItem_serialize dyn h self inst writer
    = Inr (writer @ [Sequence (map (\<lambda>t. PBool (list_ex (py_same (fst t)) xs)) triples)])"
  using assms(1) serialize_flags_static [OF assms(2), of triples]
  by (simp add: MultipleChoiceItem_serialize_def get_prop_value_def write_sequence_def)

lemma MultipleChoiceItem_deserialize_static:
  assumes "get_prop (h self) ''data'' ''choices'' = Inr (PList (map entry_of triples))"
  shows "MultipleChoiceItem_deserialize dyn h self other
      (Sequence (map (\<lambda>t. PBool (P (fst t))) triples) # rest)
    = Inr (other(self \<mapsto> PList (map fst (filter (\<lambda>t. P (fst t)) triples))), rest)"
  using assms deserialize_keys_static [of "[]" triples P]
  by (simp add: MultipleChoiceItem_deserialize_def get_prop_value_def set_value_def)

lemma selected_keys_members:
  assumes "\<forall>x \<in> set xs. \<exists>t \<in> set triples. py_same x (fst t)"
  shows "list_ex (py_same v) (map fst (filter (\<lambda>t. list_ex (py_same (fst t)) xs) triples))
    \<longleftrightarrow> list_ex (py_same v) xs"
proof
  assume "list_ex (py_same v) (map fst (filter (\<lambda>t. list_ex (py_same (fst t)) xs) triples))"
  then obtain t x where "t \<in> set triples" and x: "x \<in> set xs" and tx: "py_same (fst t) x"
    and vt: "py_same v (fst t)"
    by (auto simp: list_ex_iff)
  from vt tx have "py_same v x" by (rule py_same_trans)
  with x show "list_ex (py_same v) xs" by (auto simp: list_ex_iff)
next
  assume "list_ex (py_same v) xs"
  then obtain x where x: "x \<in> set xs" and vx: "py_same v x"
    by (auto simp: list_ex_iff)
  with assms obtain t where t: "t \<in> set triples" and xt: "py_same x (fst t)" by blast
  from xt have "py_same (fst t) x" by (rule py_same_sym)
  with x have "list_ex (py_same (fst t)) xs" by (auto simp: list_ex_iff)
  moreover from vx xt have "py_same v (fst t)" by (rule py_same_trans)
  ultimately have "t \<in> set (filter (\<lambda>t. list_ex (py_same (fst t)) xs) triples)"
    and "py_same v (fst t)"
    using t by simp_all
  then have "\<exists>k \<in> fst ` set (filter (\<lambda>t. list_ex (py_same (fst t)) xs) triples). py_same v k"
    by blast
  then show "list_ex (py_same v)
      (map fst (filter (\<lambda>t. list_ex (py_same (fst t)) xs) triples))"
    by (simp add: list_ex_iff)
qed

text \<open>
  C4, as stated, fails: the mask has a flag for each entry of the choice list and none
  for anything else, so a stored selection with a value that is no key of the list is
  not read back. With the five entries of keys 0 to 4 and the selection \<^verbatim>\<open>[1, 9]\<close>,
  \<^verbatim>\<open>serialize\<close> writes \<^verbatim>\<open>[False, True, False, False, False]\<close> and \<^verbatim>\<open>deserialize\<close>
  stores \<^verbatim>\<open>[1]\<close>: 9 is in the selection and not in the value read back.
\<close>

theorem MultipleChoiceItem_serialize_roundtrip_counterexample:
  "MultipleChoiceItem_serialize (\<lambda>f r i. Inl TypeError) (\<lambda>r. five_letters) 0
       (Map.empty(0 \<mapsto> PList [PInt 1, PInt 9])) []
     = Inr [Sequence [PBool False, PBool True, PBool False, PBool False, PBool False]]
   \<and> MultipleChoiceItem_deserialize (\<lambda>f r i. Inl TypeError) (\<lambda>r. five_letters) 0 Map.empty
       [Sequence [PBool False, PBool True, PBool False, PBool False, PBool False]]
     = Inr (Map.empty(0 \<mapsto> PList [PInt 1]), [])
   \<and> py_in (PInt 9) (PList [PInt 1, PInt 9]) = Inr True
   \<and> py_in (PInt 9) (PList [PInt 1]) = Inr False"
proof -
  let ?triples = "[(PInt 0, PUnicode ''A'', PNone), (PInt 1, PUnicode ''B'', PNone),
      (PInt 2, PUnicode ''C'', PNone), (PInt 3, PUnicode ''D'', PNone),
      (PInt 4, PUnicode ''E'', PNone)]"
  have choices: "get_prop ((\<lambda>r::nat. five_letters) 0) ''data'' ''choices''
      = Inr (PList (map entry_of ?triples))"
    by (simp add: five_letters_def get_prop_set_prop_other_realm get_prop_set_prop_single
        entry_of_def)
  have sel: "get_value (\<lambda>r. five_letters) 0 (Map.empty(0 \<mapsto> PList [PInt 1, PInt 9]))
        = PList [PInt 1, PInt 9]
      \<or> get_value (\<lambda>r. five_letters) 0 (Map.empty(0 \<mapsto> PList [PInt 1, PInt 9]))
        = PTuple [PInt 1, PInt 9]"
    by (simp add: get_value_def)
  have s: "MultipleChoiceItem_serialize (\<lambda>f r i. Inl TypeError) (\<lambda>r. five_letters) 0
       (Map.empty(0 \<mapsto> PList [PInt 1, PInt 9])) []
     = Inr [Sequence [PBool False, PBool True, PBool False, PBool False, PBool False]]"
    using MultipleChoiceItem_serialize_static
        [where h = "\<lambda>r. five_letters" and self = 0, OF choices sel,
          where dyn = "\<lambda>f r i. Inl TypeError" and writer = "[]"]
    by (simp add: py_same_def)
  have d: "MultipleChoiceItem_deserialize (\<lambda>f r i. Inl TypeError) (\<lambda>r. five_letters) 0 Map.empty
       [Sequence [PBool False, PBool True, PBool False, PBool False, PBool False]]
     = Inr (Map.empty(0 \<mapsto> PList [PInt 1]), [])"
    using MultipleChoiceItem_deserialize_static
        [where h = "\<lambda>r. five_letters" and self = 0, OF choices,
          where dyn = "\<lambda>f r i. Inl TypeError" and other = Map.empty and rest = "[]"
            and P = "\<lambda>k. k = PInt 1"]
    by simp
  from s d show ?thesis by (simp add: py_same_def)
qed

text \<open>
  C4, amended. For a multiple choice descriptor with a static choice list,
  \<^verbatim>\<open>serialize\<close> appends to the writer one sequence with exactly one boolean for each
  entry of the choice list, in the order of the list, true exactly when the key of the
  entry is in the stored selection; \<^verbatim>\<open>deserialize\<close>, on any instance and with the same
  choice list, reads that one sequence and stores the list of the keys of the selected
  entries, in the order of the list. When every value of the stored selection is in
  the keys of the choice list, the value read back holds the same elements as the
  stored selection: an object is in the one exactly when it is in the other. The
  empty selection is written as a sequence of \<^verbatim>\<open>False\<close> and read back as the empty
  selection.
\<close>

theorem MultipleChoiceItem_serialize_roundtrip:
  assumes "get_prop (h self) ''data'' ''choices''
      = Inr (PList (map entry_of triples))"
    and "get_value h self inst = PList xs \<or> get_value h self inst = PTuple xs"
  shows "MultipleChoiceItem_serialize dyn h self inst writer
      = Inr (writer @ [Sequence (map (\<lambda>t. PBool (list_ex (py_same (fst t)) xs)) triples)])
    \<and> (\<forall>other rest.
         MultipleChoiceItem_deserialize dyn h self other
           (Sequence (map (\<lambda>t. PBool (list_ex (py_same (fst t)) xs)) triples) # rest)
         = Inr (other(self \<mapsto> PList (map fst (filter (\<lambda>t. list_ex (py_same (fst t)) xs) triples))),
                rest))
    \<and> ((\<forall>x \<in> set xs. py_in x (PList (map fst triples)) = Inr True) \<longrightarrow>
         (\<forall>v. py_in v (PList (map fst (filter (\<lambda>t. list_ex (py_same (fst t)) xs) triples)))
              = py_in v (PList xs)))
    \<and> (xs = [] \<longrightarrow>
         MultipleChoiceItem_serialize dyn h self inst writer
           = Inr (writer @ [Sequence (map (\<lambda>t. PBool False) triples)])
         \<and> (\<forall>other rest.
              MultipleChoiceItem_deserialize dyn h self other
                (Sequence (map (\<lambda>t. PBool False) triples) # rest)
              = Inr (other(self \<mapsto> PList []), rest)))"
proof -
  let ?flags = "map (\<lambda>t. PBool (list_ex (py_same (fst t)) xs)) triples"
  let ?keys = "map fst (filter (\<lambda>t. list_ex (py_same (fst t)) xs) triples)"
  have ser: "MultipleChoiceItem_serialize dyn h self inst writer = Inr (writer @ [Sequence ?flags])"
    by (rule MultipleChoiceItem_serialize_static [where h = h and self = self, OF assms])
  have des: "MultipleChoiceItem_deserialize dyn h self other (Sequence ?flags # rest)
      = Inr (other(self \<mapsto> PList ?keys), rest)" for other rest
    by (rule MultipleChoiceItem_deserialize_static [where h = h and self = self, OF assms(1)])
  have members: "py_in v (PList ?keys) = py_in v (PList xs)"
    if "\<forall>x \<in> set xs. py_in x (PList (map fst triples)) = Inr True" for v
  proof -
    from that have "\<forall>x \<in> set xs. \<exists>t \<in> set triples. py_same x (fst t)"
      by (auto simp: list_ex_iff)
    from selected_keys_members [OF this, of v] show ?thesis by simp
  qed
  have empty: "xs = [] \<Longrightarrow> ?flags = map (\<lambda>t. PBool False) triples \<and> ?keys = []"
    by simp
  show ?thesis
  proof (intro conjI allI impI)
    show "MultipleChoiceItem_serialize dyn h self inst writer = Inr (writer @ [Sequence ?flags])"
      by (rule ser)
  next
    fix other rest
    show "MultipleChoiceItem_deserialize dyn h self other (Sequence ?flags # rest)
        = Inr (other(self \<mapsto> PList ?keys), rest)"
      by (rule des)
  next
    fix v
    assume "\<forall>x \<in> set xs. py_in x (PList (map fst triples)) = Inr True"
    then show "py_in v (PList ?keys) = py_in v (PList xs)"
      by (rule members)
  next
    assume "xs = []"
    with ser empty
    show "MultipleChoiceItem_serialize dyn h self inst writer
        = Inr (writer @ [Sequence (map (\<lambda>t. PBool False) triples)])"
      by simp
  next
    fix other rest
    assume "xs = []"
    with des [of other rest] empty
    show "MultipleChoiceItem_deserialize dyn h self other
          (Sequence (map (\<lambda>t. PBool False) triples) # rest)
        = Inr (other(self \<mapsto> PList []), rest)"
      by simp
  qed
qed

lemma five_letters_constructed:
  "MultipleChoiceItem_init (\<lambda>s. Inr (PUnicode s)) (PStr ''Letters'')
       (PList [PStr ''A'', PStr ''B'', PStr ''C'', PStr ''D'', PStr ''E'']) (PTuple []) (PStr [])
     = Inr five_letters"
  by (simp add: MultipleChoiceItem_init_def ChoiceItem_init_def choices_data_def
      normalize_choice_def choice_entry_def choice_default_def five_letters_def)

lemma MultipleChoiceItem_init_static_choices:
  assumes "MultipleChoiceItem_init decode label choices dflt helptext = Inr obj"
    and "\<not> py_callable choices"
  shows "\<exists>triples. get_prop obj ''data'' ''choices'' = Inr (PList (map entry_of triples))"
proof -
  from assms(1) obtain data d where data: "choices_data MultipleChoiceItem decode choices = Inr data"
    and obj: "obj = set_prop (set_prop (DataItem_init MultipleChoiceItem label d helptext)
        ''data'' [(''choices'', data)]) ''display'' [(''shape'', PTuple [PInt 1, PInt (- 1)])]"
    by (auto simp: MultipleChoiceItem_init_def ChoiceItem_init_def split: sum.splits)
  from choices_data_static_entries [OF assms(2) data] obtain entries
    where entries: "data = PList entries"
      and triples: "\<forall>entry \<in> set entries. \<exists>key lab img. entry = PTuple [key, lab, img]"
    by blast
  from triples have "\<exists>triples. entries = map entry_of triples"
  proof (induction entries)
    case Nil
    then show ?case by simp
  next
    case (Cons e es)
    then obtain ts where ts: "es = map entry_of ts" by auto
    from Cons.prems obtain key lab img where "e = PTuple [key, lab, img]" by auto
    then have "e # es = map entry_of ((key, lab, img) # ts)"
      using ts by (simp add: entry_of_def)
    then show ?case by (rule exI)
  qed
  then obtain ts where "entries = map entry_of ts" by blast
  with obj entries show ?thesis
    by (auto simp: get_prop_set_prop_other_realm get_prop_set_prop_single)
qed

theorem MultipleChoiceItem_serialize_roundtrip_witness:
  "MultipleChoiceItem_serialize (\<lambda>f r i. Inl TypeError) (\<lambda>r. five_letters) 0
       (Map.empty(0 \<mapsto> PList [PInt 1, PInt 3])) []
     = Inr [Sequence [PBool False, PBool True, PBool False, PBool True, PBool False]]
   \<and> MultipleChoiceItem_deserialize (\<lambda>f r i. Inl TypeError) (\<lambda>r. five_letters) 0 Map.empty
       [Sequence [PBool False, PBool True, PBool False, PBool True, PBool False]]
     = Inr (Map.empty(0 \<mapsto> PList [PInt 1, PInt 3]), [])
   \<and> MultipleChoiceItem_serialize (\<lambda>f r i. Inl TypeError) (\<lambda>r. five_letters) 0
       (Map.empty(0 \<mapsto> PList [])) []
     = Inr [Sequence [PBool False, PBool False, PBool False, PBool False, PBool False]]
   \<and> MultipleChoiceItem_deserialize (\<lambda>f r i. Inl TypeError) (\<lambda>r. five_letters) 0 Map.empty
       [Sequence [PBool False, PBool False, PBool False, PBool False, PBool False]]
     = Inr (Map.empty(0 \<mapsto> PList []), [])
   \<and> MultipleChoiceItem_serialize (\<lambda>f r i. Inl TypeError) (\<lambda>r. five_letters) 0
       (Map.empty(0 \<mapsto> PTuple [PInt 3, PBool True])) []
     = Inr [Sequence [PBool False, PBool True, PBool False, PBool True, PBool False]]
   \<and> (\<forall>v. py_in v (PList [PInt 1, PInt 3]) = py_in v (PList [PInt 3, PBool True]))"
proof -
  let ?triples = "[(PInt 0, PUnicode ''A'', PNone), (PInt 1, PUnicode ''B'', PNone),
      (PInt 2, PUnicode ''C'', PNone), (PInt 3, PUnicode ''D'', PNone),
      (PInt 4, PUnicode ''E'', PNone)]"
  have choices: "get_prop ((\<lambda>r::nat. five_letters) 0) ''data'' ''choices''
      = Inr (PList (map entry_of ?triples))"
    by (simp add: five_letters_def get_prop_set_prop_other_realm get_prop_set_prop_single
        entry_of_def)
  have sel: "get_value (\<lambda>r. five_letters) 0 (Map.empty(0 \<mapsto> PList [PInt 1, PInt 3]))
        = PList [PInt 1, PInt 3]
      \<or> get_value (\<lambda>r. five_letters) 0 (Map.empty(0 \<mapsto> PList [PInt 1, PInt 3]))
        = PTuple [PInt 1, PInt 3]"
    by (simp add: get_value_def)
  have none: "get_value (\<lambda>r. five_letters) 0 (Map.empty(0 \<mapsto> PList [])) = PList []
      \<or> get_value (\<lambda>r. five_letters) 0 (Map.empty(0 \<mapsto> PList [])) = PTuple []"
    by (simp add: get_value_def)
  note a = MultipleChoiceItem_serialize_roundtrip
      [where h = "\<lambda>r. five_letters" and self = 0, OF choices sel,
        where dyn = "\<lambda>f r i. Inl TypeError" and writer = "[]"]
  note b = MultipleChoiceItem_serialize_roundtrip
      [where h = "\<lambda>r. five_letters" and self = 0, OF choices none,
        where dyn = "\<lambda>f r i. Inl TypeError" and writer = "[]"]
  have s1: "MultipleChoiceItem_serialize (\<lambda>f r i. Inl TypeError) (\<lambda>r. five_letters) 0
       (Map.empty(0 \<mapsto> PList [PInt 1, PInt 3])) []
     = Inr [Sequence [PBool False, PBool True, PBool False, PBool True, PBool False]]"
    using a [THEN conjunct1] by (simp add: py_same_def)
  have d1: "MultipleChoiceItem_deserialize (\<lambda>f r i. Inl TypeError) (\<lambda>r. five_letters) 0 Map.empty
       [Sequence [PBool False, PBool True, PBool False, PBool True, PBool False]]
     = Inr (Map.empty(0 \<mapsto> PList [PInt 1, PInt 3]), [])"
    using a [THEN conjunct2, THEN conjunct1, rule_format, of Map.empty "[]"]
    by (simp add: py_same_def)
  have s2: "MultipleChoiceItem_serialize (\<lambda>f r i. Inl TypeError) (\<lambda>r. five_letters) 0
       (Map.empty(0 \<mapsto> PList [])) []
     = Inr [Sequence [PBool False, PBool False, PBool False, PBool False, PBool False]]"
    using b [THEN conjunct1] by (simp add: py_same_def)
  have d2: "MultipleChoiceItem_deserialize (\<lambda>f r i. Inl TypeError) (\<lambda>r. five_letters) 0 Map.empty
       [Sequence [PBool False, PBool False, PBool False, PBool False, PBool False]]
     = Inr (Map.empty(0 \<mapsto> PList []), [])"
    using b [THEN conjunct2, THEN conjunct1, rule_format, of Map.empty "[]"]
    by (simp add: py_same_def)
  have swapped: "get_value (\<lambda>r. five_letters) 0 (Map.empty(0 \<mapsto> PTuple [PInt 3, PBool True]))
        = PList [PInt 3, PBool True]
      \<or> get_value (\<lambda>r. five_letters) 0 (Map.empty(0 \<mapsto> PTuple [PInt 3, PBool True]))
        = PTuple [PInt 3, PBool True]"
    by (simp add: get_value_def)
  note c = MultipleChoiceItem_serialize_roundtrip
      [where h = "\<lambda>r. five_letters" and self = 0, OF choices swapped,
        where dyn = "\<lambda>f r i. Inl TypeError" and writer = "[]"]
  have s3: "MultipleChoiceItem_serialize (\<lambda>f r i. Inl TypeError) (\<lambda>r. five_letters) 0
       (Map.empty(0 \<mapsto> PTuple [PInt 3, PBool True])) []
     = Inr [Sequence [PBool False, PBool True, PBool False, PBool True, PBool False]]"
    using c [THEN conjunct1] by (simp add: py_same_def)
  have within: "\<forall>x \<in> set [PInt 3, PBool True]. py_in x (PList (map fst ?triples)) = Inr True"
    by (simp add: py_same_def)
  have m: "\<forall>v. py_in v (PList [PInt 1, PInt 3]) = py_in v (PList [PInt 3, PBool True])"
    using c [THEN conjunct2, THEN conjunct2, THEN conjunct1, THEN mp, OF within]
    by (simp add: py_same_def)
  from s1 d1 s2 d2 s3 m show ?thesis by simp
qed

section \<open>Numeric descriptors: type, zero and bounds\<close>

lemma isinstance_numeric:
  "isinstance v [T_int] \<longleftrightarrow> (\<exists>i. v = PInt i) \<or> (\<exists>b. v = PBool b)"
  "isinstance v [T_float] \<longleftrightarrow> (\<exists>f. v = PFloat f)"
  by (cases v; simp add: isinstance_def issubclass_def)+

lemma fl_lt_not_le:
  "\<not> fl_is_nan x \<Longrightarrow> \<not> fl_is_nan y \<Longrightarrow> fl_le y x \<longleftrightarrow> \<not> fl_lt x y"
  by (cases x; cases y) (auto simp: fl_le_def fl_is_nan_def)

lemma num_ge_iff_not_lt:
  "\<not> fl_is_nan x \<Longrightarrow> \<not> is_nan b \<Longrightarrow> num_ge x b \<longleftrightarrow> \<not> num_lt x b"
  by (cases b) (auto simp: num_ge_def num_lt_def fl_lt_not_le is_nan_def fl_is_nan_def)

lemma num_le_iff_not_gt:
  "\<not> fl_is_nan x \<Longrightarrow> \<not> is_nan b \<Longrightarrow> num_le x b \<longleftrightarrow> \<not> num_gt x b"
  by (cases b) (auto simp: num_le_def num_gt_def fl_lt_not_le is_nan_def fl_is_nan_def)

lemma py_ge_iff_not_lt:
  "as_number v \<noteq> None \<Longrightarrow> \<not> is_nan v \<Longrightarrow> \<not> is_nan b \<Longrightarrow> py_ge v b \<longleftrightarrow> \<not> py_lt v b"
  by (cases v) (auto simp: py_ge_def py_lt_def num_ge_iff_not_lt is_nan_def fl_is_nan_def)

lemma py_le_iff_not_gt:
  "as_number v \<noteq> None \<Longrightarrow> \<not> is_nan v \<Longrightarrow> \<not> is_nan b \<Longrightarrow> py_le v b \<longleftrightarrow> \<not> py_gt v b"
  by (cases v) (auto simp: py_le_def py_gt_def num_le_iff_not_gt is_nan_def fl_is_nan_def)

lemma NumericTypeItem_check_value_eq:
  assumes "numeric_type (item_class self) = Some t"
    and "get_prop self ''data'' ''nonzero'' = Inr nonzero"
    and "get_prop self ''data'' ''min'' = Inr mn"
    and "get_prop self ''data'' ''max'' = Inr mx"
  shows "NumericTypeItem_check_value self v
    = Inr (isinstance v [t]
        \<and> \<not> (truthy nonzero \<and> py_eq v (PInt 0))
        \<and> \<not> (mn \<noteq> PNone \<and> py_lt v mn)
        \<and> \<not> (mx \<noteq> PNone \<and> py_gt v mx))"
  using assms by (simp add: NumericTypeItem_check_value_def)

lemma numeric_type_cases:
  "numeric_type cls = Some t \<Longrightarrow> (cls = IntItem \<and> t = T_int) \<or> (cls = FloatItem \<and> t = T_float)"
  by (cases cls) auto

lemma IntItem_init_props:
  "numeric_type (item_class (IntItem_init label dflt mn mx nonzero even_flag helptext)) = Some T_int"
  "get_prop (IntItem_init label dflt mn mx nonzero even_flag helptext) ''data'' ''nonzero'' = Inr nonzero"
  "get_prop (IntItem_init label dflt mn mx nonzero even_flag helptext) ''data'' ''min'' = Inr mn"
  "get_prop (IntItem_init label dflt mn mx nonzero even_flag helptext) ''data'' ''max'' = Inr mx"
  "get_prop (IntItem_init label dflt mn mx nonzero even_flag helptext) ''data'' ''even'' = Inr even_flag"
  by (simp_all add: IntItem_init_def NumericTypeItem_init_def DataItem_init_def
      item_fields_set_prop get_prop_def group_of_set_prop)

lemma FloatItem_init_props:
  "numeric_type (item_class (FloatItem_init label dflt mn mx nonzero helptext)) = Some T_float"
  "get_prop (FloatItem_init label dflt mn mx nonzero helptext) ''data'' ''nonzero'' = Inr nonzero"
  "get_prop (FloatItem_init label dflt mn mx nonzero helptext) ''data'' ''min'' = Inr mn"
  "get_prop (FloatItem_init label dflt mn mx nonzero helptext) ''data'' ''max'' = Inr mx"
  by (simp_all add: FloatItem_init_def NumericTypeItem_init_def DataItem_init_def
      item_fields_set_prop get_prop_def group_of_set_prop)

lemma numeric_check_value_float:
  "item_class self \<noteq> IntItem \<Longrightarrow> numeric_check_value self v = NumericTypeItem_check_value self v"
  by (simp add: numeric_check_value_def)

lemma numeric_check_value_even_unset:
  "get_prop self ''data'' ''even'' = Inr PNone \<Longrightarrow>
   numeric_check_value self v = NumericTypeItem_check_value self v"
  by (cases "NumericTypeItem_check_value self v")
     (auto simp: numeric_check_value_def IntItem_check_value_def)

lemma numeric_check_value_invalid:
  "NumericTypeItem_check_value self v = Inr False \<Longrightarrow> numeric_check_value self v = Inr False"
  by (simp add: numeric_check_value_def IntItem_check_value_def)

text \<open>
  C2, as stated, fails: \<^verbatim>\<open>isinstance\<close> accepts an instance of a subclass, so an integer
  descriptor with no constraint accepts \<^verbatim>\<open>True\<close>, whose type is \<^verbatim>\<open>bool\<close> and not
  \<^verbatim>\<open>int\<close>; and the bounds reject a value below \<^verbatim>\<open>min\<close> or above \<^verbatim>\<open>max\<close>, so a float
  descriptor with \<^verbatim>\<open>min = 0.0\<close> accepts NaN, which is not at least \<^verbatim>\<open>0.0\<close>.
\<close>

theorem NumericTypeItem_check_value_counterexample:
  "numeric_check_value (IntItem_init (PStr ''n'') PNone PNone PNone PNone PNone (PStr []))
       (PBool True) = Inr True
   \<and> \<not> numeric_contract T_int PNone PNone PNone (PBool True)
   \<and> numeric_check_value
       (FloatItem_init (PStr ''x'') PNone (PFloat (Finite 0)) PNone PNone (PStr []))
       (PFloat (NaN 0)) = Inr True
   \<and> \<not> numeric_contract T_float PNone (PFloat (Finite 0)) PNone (PFloat (NaN 0))"
proof -
  have "item_class (FloatItem_init (PStr ''x'') PNone (PFloat (Finite 0)) PNone PNone (PStr []))
      \<noteq> IntItem"
    by (simp add: FloatItem_init_def NumericTypeItem_init_def item_fields_set_prop DataItem_init_def)
  then have flt: "numeric_check_value
       (FloatItem_init (PStr ''x'') PNone (PFloat (Finite 0)) PNone PNone (PStr []))
       (PFloat (NaN 0)) = Inr True"
    by (simp add: numeric_check_value_float
        NumericTypeItem_check_value_eq [OF FloatItem_init_props(1-4)]
        isinstance_def issubclass_def py_lt_def num_lt_def)
  have int: "numeric_check_value (IntItem_init (PStr ''n'') PNone PNone PNone PNone PNone (PStr []))
       (PBool True) = Inr True"
    by (simp add: numeric_check_value_even_unset [OF IntItem_init_props(5)]
        NumericTypeItem_check_value_eq [OF IntItem_init_props(1-4)]
        isinstance_def issubclass_def)
  have claim: "\<not> numeric_contract T_int PNone PNone PNone (PBool True)"
    "\<not> numeric_contract T_float PNone (PFloat (Finite 0)) PNone (PFloat (NaN 0))"
    by (simp_all add: numeric_contract_def py_ge_def num_ge_def fl_le_def)
  from int flt claim show ?thesis by simp
qed

text \<open>
  C2, amended. The \<^verbatim>\<open>check_value\<close> of a float descriptor, and of an integer descriptor
  whose \<^verbatim>\<open>even\<close> flag is unset, is \<^verbatim>\<open>NumericTypeItem.check_value\<close>; for an integer
  descriptor with \<^verbatim>\<open>even\<close> set it is the inherited part of the test, to which
  \<^verbatim>\<open>IntItem.check_value\<close> adds the parity. \<^verbatim>\<open>NumericTypeItem.check_value(v)\<close> is true
  exactly when \<open>v\<close> is an instance of the numeric type of the descriptor (\<^verbatim>\<open>isinstance\<close>:
  a \<^verbatim>\<open>bool\<close> is an instance of \<^verbatim>\<open>int\<close>), \<open>v\<close> is not zero if \<^verbatim>\<open>nonzero\<close> is true, \<open>v\<close> is
  not below \<^verbatim>\<open>min\<close> if \<^verbatim>\<open>min\<close> is set and \<open>v\<close> is not above \<^verbatim>\<open>max\<close> if \<^verbatim>\<open>max\<close> is set. When
  neither \<open>v\<close> nor a bound is NaN, not below \<^verbatim>\<open>min\<close> is \<^verbatim>\<open>v >= min\<close> and not above
  \<^verbatim>\<open>max\<close> is \<^verbatim>\<open>v <= max\<close>; when moreover \<open>v\<close> is not a \<^verbatim>\<open>bool\<close>, the result is the
  contract in the words of the specification. With \<^verbatim>\<open>nonzero\<close> true, zero is never
  valid, whatever \<^verbatim>\<open>min\<close>, \<^verbatim>\<open>max\<close> and \<^verbatim>\<open>even\<close> are.
\<close>

theorem NumericTypeItem_check_value_contract:
  assumes "numeric_type (item_class self) = Some t"
    and "get_prop self ''data'' ''nonzero'' = Inr nonzero"
    and "get_prop self ''data'' ''min'' = Inr mn"
    and "get_prop self ''data'' ''max'' = Inr mx"
  shows "NumericTypeItem_check_value self v
      = Inr (isinstance v [t]
          \<and> (truthy nonzero \<longrightarrow> \<not> py_eq v (PInt 0))
          \<and> (mn \<noteq> PNone \<longrightarrow> \<not> py_lt v mn)
          \<and> (mx \<noteq> PNone \<longrightarrow> \<not> py_gt v mx))
    \<and> (item_class self = FloatItem \<or> get_prop self ''data'' ''even'' = Inr PNone \<longrightarrow>
         numeric_check_value self v = NumericTypeItem_check_value self v)
    \<and> (numeric_check_value self v = Inr True \<longrightarrow> NumericTypeItem_check_value self v = Inr True)
    \<and> (\<not> is_nan v \<and> \<not> is_nan mn \<and> \<not> is_nan mx \<longrightarrow>
         NumericTypeItem_check_value self v
           = Inr (isinstance v [t]
               \<and> (truthy nonzero \<longrightarrow> \<not> py_eq v (PInt 0))
               \<and> (mn \<noteq> PNone \<longrightarrow> py_ge v mn)
               \<and> (mx \<noteq> PNone \<longrightarrow> py_le v mx)))
    \<and> (\<not> is_nan v \<and> \<not> is_nan mn \<and> \<not> is_nan mx \<and> type_of v \<noteq> T_bool \<longrightarrow>
         NumericTypeItem_check_value self v = Inr (numeric_contract t nonzero mn mx v))
    \<and> (truthy nonzero \<and> py_eq v (PInt 0) \<longrightarrow>
         NumericTypeItem_check_value self v = Inr False \<and> numeric_check_value self v = Inr False)
    \<and> (truthy nonzero \<longrightarrow>
         numeric_check_value self (PInt 0) = Inr False
         \<and> numeric_check_value self (PFloat (Finite 0)) = Inr False)"
proof -
  note eq = NumericTypeItem_check_value_eq [OF assms]
  have general: "NumericTypeItem_check_value self v
      = Inr (isinstance v [t]
          \<and> (truthy nonzero \<longrightarrow> \<not> py_eq v (PInt 0))
          \<and> (mn \<noteq> PNone \<longrightarrow> \<not> py_lt v mn)
          \<and> (mx \<noteq> PNone \<longrightarrow> \<not> py_gt v mx))"
    by (auto simp: eq)
  have resolved: "numeric_check_value self v = NumericTypeItem_check_value self v"
    if "item_class self = FloatItem \<or> get_prop self ''data'' ''even'' = Inr PNone"
    using that numeric_check_value_float [of self v] numeric_check_value_even_unset [of self v]
    by auto
  have stricter: "NumericTypeItem_check_value self v = Inr True"
    if "numeric_check_value self v = Inr True"
    using that
    by (cases "NumericTypeItem_check_value self v")
       (auto simp: numeric_check_value_def IntItem_check_value_def split: if_splits)
  have number: "as_number v \<noteq> None" if "isinstance v [t]"
    using that numeric_type_cases [OF assms(1)] by (auto simp: isinstance_numeric)
  have bounds: "NumericTypeItem_check_value self v
      = Inr (isinstance v [t]
          \<and> (truthy nonzero \<longrightarrow> \<not> py_eq v (PInt 0))
          \<and> (mn \<noteq> PNone \<longrightarrow> py_ge v mn)
          \<and> (mx \<noteq> PNone \<longrightarrow> py_le v mx))"
    if "\<not> is_nan v" "\<not> is_nan mn" "\<not> is_nan mx"
  proof (cases "isinstance v [t]")
    case True
    from number [OF True] that show ?thesis
      by (simp add: general py_ge_iff_not_lt py_le_iff_not_gt)
  next
    case False
    then show ?thesis by (simp add: general)
  qed
  have exact: "isinstance v [t] \<longleftrightarrow> type_of v = t" if "type_of v \<noteq> T_bool"
    using that numeric_type_cases [OF assms(1)]
    by (cases v) (auto simp: isinstance_def issubclass_def)
  have contract: "NumericTypeItem_check_value self v = Inr (numeric_contract t nonzero mn mx v)"
    if "\<not> is_nan v" "\<not> is_nan mn" "\<not> is_nan mx" "type_of v \<noteq> T_bool"
    using bounds [OF that(1-3)] exact [OF that(4)] by (simp add: numeric_contract_def)
  have zero: "NumericTypeItem_check_value self w = Inr False \<and> numeric_check_value self w = Inr False"
    if "truthy nonzero" "py_eq w (PInt 0)" for w
  proof -
    from that have "NumericTypeItem_check_value self w = Inr False" by (simp add: eq)
    then show ?thesis by (simp add: numeric_check_value_invalid)
  qed
  have zeros: "numeric_check_value self (PInt 0) = Inr False
      \<and> numeric_check_value self (PFloat (Finite 0)) = Inr False"
    if "truthy nonzero"
    using zero [OF that, of "PInt 0"] zero [OF that, of "PFloat (Finite 0)"] by simp
  from general resolved stricter bounds contract zero zeros show ?thesis by blast
qed

theorem NumericTypeItem_check_value_contract_witness:
  "numeric_check_value
       (IntItem_init (PStr ''n'') PNone (PInt (- 5)) (PInt 10) (PBool True) PNone (PStr []))
       (PInt 0) = Inr False
   \<and> numeric_check_value
       (IntItem_init (PStr ''n'') PNone (PInt (- 5)) (PInt 10) (PBool True) PNone (PStr []))
       (PInt 7) = Inr True
   \<and> numeric_check_value
       (IntItem_init (PStr ''n'') PNone (PInt (- 5)) (PInt 10) (PBool True) PNone (PStr []))
       (PInt 11) = Inr False
   \<and> numeric_check_value
       (IntItem_init (PStr ''n'') PNone (PInt (- 5)) (PInt 10) (PBool True) PNone (PStr []))
       (PFloat (Finite 7)) = Inr False
   \<and> numeric_check_value
       (IntItem_init (PStr ''n'') PNone (PInt (- 5)) (PInt 10) (PBool True) (PBool True) (PStr []))
       (PInt 0) = Inr False
   \<and> numeric_check_value
       (FloatItem_init (PStr ''x'') PNone (PFloat (Finite 1)) PNone PNone (PStr []))
       (PFloat (Finite (1 / 2))) = Inr False
   \<and> numeric_check_value
       (FloatItem_init (PStr ''x'') PNone (PFloat (Finite 1)) PNone PNone (PStr []))
       (PFloat (Finite (3 / 2))) = Inr True"
proof -
  note pi = IntItem_init_props
      [of "PStr ''n''" PNone "PInt (- 5)" "PInt 10" "PBool True" PNone "PStr []"]
  note pe = IntItem_init_props
      [of "PStr ''n''" PNone "PInt (- 5)" "PInt 10" "PBool True" "PBool True" "PStr []"]
  note pf = FloatItem_init_props
      [of "PStr ''x''" PNone "PFloat (Finite 1)" PNone PNone "PStr []"]
  note int = NumericTypeItem_check_value_contract [OF pi(1-4)]
  note evn = NumericTypeItem_check_value_contract [OF pe(1-4)]
  note flt = NumericTypeItem_check_value_contract [OF pf(1-4)]
  have fc: "item_class (FloatItem_init (PStr ''x'') PNone (PFloat (Finite 1)) PNone PNone (PStr []))
      = FloatItem"
    by (simp add: FloatItem_init_def NumericTypeItem_init_def item_fields_set_prop DataItem_init_def)
  have a: "numeric_check_value
       (IntItem_init (PStr ''n'') PNone (PInt (- 5)) (PInt 10) (PBool True) PNone (PStr []))
       (PInt 0) = Inr False"
    using int [where v = "PInt 0", THEN conjunct1]
      int [where v = "PInt 0", THEN conjunct2, THEN conjunct1] pi(5)
    by (simp add: isinstance_numeric)
  have b: "numeric_check_value
       (IntItem_init (PStr ''n'') PNone (PInt (- 5)) (PInt 10) (PBool True) PNone (PStr []))
       (PInt 7) = Inr True"
    using int [where v = "PInt 7", THEN conjunct1]
      int [where v = "PInt 7", THEN conjunct2, THEN conjunct1] pi(5)
    by (simp add: isinstance_numeric py_lt_def py_gt_def num_lt_def num_gt_def)
  have c: "numeric_check_value
       (IntItem_init (PStr ''n'') PNone (PInt (- 5)) (PInt 10) (PBool True) PNone (PStr []))
       (PInt 11) = Inr False"
    using int [where v = "PInt 11", THEN conjunct1]
      int [where v = "PInt 11", THEN conjunct2, THEN conjunct1] pi(5)
    by (simp add: isinstance_numeric py_lt_def py_gt_def num_lt_def num_gt_def)
  have d: "numeric_check_value
       (IntItem_init (PStr ''n'') PNone (PInt (- 5)) (PInt 10) (PBool True) PNone (PStr []))
       (PFloat (Finite 7)) = Inr False"
    using int [where v = "PFloat (Finite 7)", THEN conjunct1]
      int [where v = "PFloat (Finite 7)", THEN conjunct2, THEN conjunct1] pi(5)
    by (simp add: isinstance_numeric)
  have e: "numeric_check_value
       (IntItem_init (PStr ''n'') PNone (PInt (- 5)) (PInt 10) (PBool True) (PBool True) (PStr []))
       (PInt 0) = Inr False"
    using evn [where v = "PInt 0"] by simp
  have f: "numeric_check_value
       (FloatItem_init (PStr ''x'') PNone (PFloat (Finite 1)) PNone PNone (PStr []))
       (PFloat (Finite (1 / 2))) = Inr False"
    using flt [where v = "PFloat (Finite (1 / 2))", THEN conjunct1]
      flt [where v = "PFloat (Finite (1 / 2))", THEN conjunct2, THEN conjunct1] fc
    by (simp add: isinstance_numeric py_lt_def py_gt_def num_lt_def num_gt_def)
  have g: "numeric_check_value
       (FloatItem_init (PStr ''x'') PNone (PFloat (Finite 1)) PNone PNone (PStr []))
       (PFloat (Finite (3 / 2))) = Inr True"
    using flt [where v = "PFloat (Finite (3 / 2))", THEN conjunct1]
      flt [where v = "PFloat (Finite (3 / 2))", THEN conjunct2, THEN conjunct1] fc
    by (simp add: isinstance_numeric py_lt_def py_gt_def num_lt_def num_gt_def)
  from a b c d e f g show ?thesis by simp
qed

section \<open>Integer descriptors: parity\<close>

lemma bit_length_le: "n < 2 ^ k \<Longrightarrow> bit_length n \<le> k"
proof (induction k arbitrary: n)
  case 0
  then show ?case by (simp add: bit_length.simps)
next
  case (Suc k)
  show ?case
  proof (cases "n = 0")
    case True
    then show ?thesis by (simp add: bit_length.simps)
  next
    case False
    from Suc.prems have "n div 2 < 2 ^ k" by simp
    from Suc.IH [OF this] False show ?thesis
      by (subst bit_length.simps) simp
  qed
qed

lemma float_of_int_exact:
  assumes "\<bar>i\<bar> < 2 ^ 53"
  shows "float_of_int i = Inr (of_int i)"
proof -
  from assms have "nat \<bar>i\<bar> < 2 ^ 53"
    by (simp add: nat_less_iff)
  then have "bit_length (nat \<bar>i\<bar>) \<le> 53" by (rule bit_length_le)
  then show ?thesis by (simp add: float_of_int_def Let_def)
qed

lemma is_even_test_exact:
  assumes "\<bar>i\<bar> < 2 ^ 53"
  shows "is_even_test i = Inr (even i)"
proof -
  have "(of_int (i div 2) :: rat) = of_int i / 2 \<longleftrightarrow> even i"
  proof
    assume "(of_int (i div 2) :: rat) = of_int i / 2"
    then have "(of_int (2 * (i div 2)) :: rat) = of_int i" by simp
    then have "2 * (i div 2) = i" by (simp only: of_int_eq_iff)
    then show "even i" by presburger
  next
    assume "even i"
    then obtain k where "i = 2 * k" by (auto elim: evenE)
    then show "(of_int (i div 2) :: rat) = of_int i / 2" by simp
  qed
  then show ?thesis
    by (simp add: is_even_test_def float_of_int_exact [OF assms])
qed

text \<open>
  Where the conversion to a double is exact, the parity test of \<^verbatim>\<open>IntItem.check_value\<close>
  is the parity of the value: for an \<^verbatim>\<open>int\<close> of magnitude below \<^verbatim>\<open>2 ** 53\<close>, the result
  is the inherited test together with: even when \<^verbatim>\<open>even\<close> is true, odd when it is
  false, nothing when it is \<^verbatim>\<open>None\<close>.
\<close>

lemma IntItem_check_value_parity_exact:
  assumes "get_prop self ''data'' ''even'' = Inr even_flag"
    and "NumericTypeItem_check_value self (PInt i) = Inr valid"
    and "\<bar>i\<bar> < 2 ^ 53"
  shows "IntItem_check_value self (PInt i)
    = Inr (valid \<and> (even_flag \<noteq> PNone \<longrightarrow> (truthy even_flag \<longleftrightarrow> even i)))"
  using assms
  by (auto simp: IntItem_check_value_def int_value_def is_even_test_exact)

lemma bit_length_large: "bit_length 9007199254740993 = 54"
  by (simp add: bit_length.simps)

lemma float_of_int_large: "float_of_int 9007199254740993 = Inr 9007199254740992"
  by (simp add: float_of_int_def bit_length_large Let_def)

lemma is_even_test_large: "is_even_test 9007199254740993 = Inr True"
  by (simp add: is_even_test_def float_of_int_large)

text \<open>
  C1. The docstring of \<^verbatim>\<open>IntItem\<close> and the claim say that with \<^verbatim>\<open>even\<close> true the even
  values are valid and with \<^verbatim>\<open>even\<close> false the odd ones. The parity test goes through
  a double: \<^verbatim>\<open>9007199254740993\<close> (\<^verbatim>\<open>2 ** 53 + 1\<close>, an \<^verbatim>\<open>int\<close> on a 64-bit platform) is
  odd, its conversion rounds to \<^verbatim>\<open>2 ** 53\<close>, and \<^verbatim>\<open>value//2 == value/2.\<close> is true. An
  integer descriptor with \<^verbatim>\<open>even=True\<close> accepts this odd value, and one with
  \<^verbatim>\<open>even=False\<close> rejects it.
\<close>

theorem IntItem_check_value_parity_large_odd:
  "IntItem_check_value (IntItem_init (PStr ''n'') PNone PNone PNone PNone (PBool True) (PStr []))
       (PInt 9007199254740993) = Inr True
   \<and> IntItem_check_value (IntItem_init (PStr ''n'') PNone PNone PNone PNone (PBool False) (PStr []))
       (PInt 9007199254740993) = Inr False
   \<and> odd (9007199254740993 :: int)
   \<and> - maxint - 1 \<le> 9007199254740993 \<and> 9007199254740993 \<le> maxint"
  by (simp add: IntItem_check_value_def NumericTypeItem_check_value_eq [OF IntItem_init_props(1-4)]
      IntItem_init_props(5) isinstance_def issubclass_def int_value_def is_even_test_large
      maxint_def)

section \<open>Numbers from text: the gate and the errors\<close>

lemma re_match_numeric_iff:
  "re_match_numeric s \<longleftrightarrow>
     (\<exists>body. body \<noteq> [] \<and> list_all grammar_char body \<and> (s = body \<or> s = body @ [CHR 0x0A]))"
proof
  assume m: "re_match_numeric s"
  show "\<exists>body. body \<noteq> [] \<and> list_all grammar_char body \<and> (s = body \<or> s = body @ [CHR 0x0A])"
  proof (cases "s \<noteq> [] \<and> last s = CHR 0x0A")
    case True
    with m have "butlast s \<noteq> [] \<and> list_all grammar_char (butlast s)"
      by (simp add: re_match_numeric_def Let_def)
    moreover from True have "s = butlast s @ [CHR 0x0A]"
      by (metis append_butlast_last_id)
    ultimately show ?thesis by blast
  next
    case False
    with m have "s \<noteq> [] \<and> list_all grammar_char s"
      by (auto simp: re_match_numeric_def Let_def)
    then show ?thesis by blast
  qed
next
  assume "\<exists>body. body \<noteq> [] \<and> list_all grammar_char body \<and> (s = body \<or> s = body @ [CHR 0x0A])"
  then obtain body where body: "body \<noteq> []" "list_all grammar_char body"
    and s: "s = body \<or> s = body @ [CHR 0x0A]"
    by blast
  have nl: "\<not> grammar_char (CHR 0x0A)"
    by (simp add: grammar_char_def)
  from s show "re_match_numeric s"
  proof
    assume "s = body"
    moreover from body nl have "last body \<noteq> CHR 0x0A"
      by (metis last_in_set list_all_iff)
    ultimately show ?thesis using body by (simp add: re_match_numeric_def Let_def)
  next
    assume "s = body @ [CHR 0x0A]"
    then show ?thesis using body by (simp add: re_match_numeric_def Let_def)
  qed
qed

lemma call_type_not_None: "call_type cls x = Inr v \<Longrightarrow> v \<noteq> PNone"
  by (cases x rule: py_int.cases; cases "numeric_type cls")
     (auto simp: call_type_def mk_int_def split: if_splits sum.splits)

text \<open>
  What \<^verbatim>\<open>NumericTypeItem.from_string\<close> does in general: it returns a value only when
  the pattern matches the text (characters of the alphabet, then possibly one newline),
  \<^verbatim>\<open>eval\<close> returns and the conversion to the numeric type returns; a text the pattern
  does not match, an exception of \<^verbatim>\<open>eval\<close> and an exception of the conversion all give
  \<^verbatim>\<open>None\<close>. On an integer descriptor \<^verbatim>\<open>"2+2"\<close> gives 4 (given that \<^verbatim>\<open>eval\<close> does), and
  \<^verbatim>\<open>"abc"\<close> and the empty text give \<^verbatim>\<open>None\<close>.
\<close>

lemma NumericTypeItem_from_string_cases:
  "(NumericTypeItem_from_string ev self s \<noteq> PNone \<longrightarrow>
      re_match_numeric s
      \<and> (\<exists>x. ev s = Inr x
            \<and> call_type (item_class self) x = Inr (NumericTypeItem_from_string ev self s)))
   \<and> (\<not> re_match_numeric s \<longrightarrow> NumericTypeItem_from_string ev self s = PNone)
   \<and> ((\<exists>e. ev s = Inl e) \<longrightarrow> NumericTypeItem_from_string ev self s = PNone)
   \<and> (\<forall>x. ev s = Inr x \<and> (\<exists>e. call_type (item_class self) x = Inl e) \<longrightarrow>
        NumericTypeItem_from_string ev self s = PNone)
   \<and> (\<forall>x v. re_match_numeric s \<and> ev s = Inr x \<and> call_type (item_class self) x = Inr v \<longrightarrow>
        NumericTypeItem_from_string ev self s = v)"
  by (auto simp: NumericTypeItem_from_string_def split: sum.splits)

lemma NumericTypeItem_from_string_examples:
  "(ev ''2+2'' = Inr (EInt 4) \<longrightarrow>
      NumericTypeItem_from_string ev
        (IntItem_init label dflt mn mx nonzero even_flag helptext) ''2+2'' = PInt 4)
   \<and> NumericTypeItem_from_string ev self ''abc'' = PNone
   \<and> NumericTypeItem_from_string ev self [] = PNone"
  by (simp add: NumericTypeItem_from_string_def re_match_numeric_def Let_def grammar_char_def
      call_type_def IntItem_init_props(1) mk_int_def maxint_def)

text \<open>
  C3. The claim lets \<^verbatim>\<open>from_string\<close> return a value only for a text made of the
  characters of the grammar. The \<^verbatim>\<open>$\<close> of the pattern also matches before a newline
  that ends the text: the text \<^verbatim>\<open>"2+2\n"\<close> has a character outside the grammar, the
  pattern matches it, and (\<^verbatim>\<open>eval\<close> giving 4 for it, as Python's does) an integer
  descriptor returns 4 and not \<^verbatim>\<open>None\<close>.
\<close>

theorem NumericTypeItem_from_string_trailing_newline:
  assumes "ev (''2+2'' @ [CHR 0x0A]) = Inr (EInt 4)"
  shows "re_match_numeric (''2+2'' @ [CHR 0x0A])
    \<and> \<not> list_all grammar_char (''2+2'' @ [CHR 0x0A])
    \<and> NumericTypeItem_from_string ev
        (IntItem_init label dflt mn mx nonzero even_flag helptext) (''2+2'' @ [CHR 0x0A]) = PInt 4"
  using assms
  by (simp add: NumericTypeItem_from_string_def re_match_numeric_def Let_def grammar_char_def
      call_type_def IntItem_init_props(1) mk_int_def maxint_def)

theorem NumericTypeItem_from_string_trailing_newline_witness:
  "NumericTypeItem_from_string (\<lambda>s. if s = ''2+2'' @ [CHR 0x0A] then Inr (EInt 4) else Inl SyntaxError)
       (IntItem_init (PStr ''n'') PNone PNone PNone PNone PNone (PStr [])) (''2+2'' @ [CHR 0x0A])
     = PInt 4"
  using NumericTypeItem_from_string_trailing_newline
      [where ev = "\<lambda>s. if s = ''2+2'' @ [CHR 0x0A] then Inr (EInt 4) else Inl SyntaxError"]
  by simp

section \<open>Instances\<close>

lemma IntItem_check_value_parity_exact_witness:
  "IntItem_check_value (IntItem_init (PStr ''n'') PNone PNone PNone PNone (PBool True) (PStr []))
       (PInt 4) = Inr True
   \<and> IntItem_check_value (IntItem_init (PStr ''n'') PNone PNone PNone PNone (PBool True) (PStr []))
       (PInt 7) = Inr False
   \<and> IntItem_check_value (IntItem_init (PStr ''n'') PNone PNone PNone PNone (PBool False) (PStr []))
       (PInt (- 3)) = Inr True
   \<and> IntItem_check_value (IntItem_init (PStr ''n'') PNone PNone PNone PNone PNone (PStr []))
       (PInt 7) = Inr True"
proof -
  have valid: "NumericTypeItem_check_value
      (IntItem_init (PStr ''n'') PNone PNone PNone PNone even_flag (PStr [])) (PInt i) = Inr True"
    for even_flag i
    by (simp add: NumericTypeItem_check_value_eq [OF IntItem_init_props(1-4)]
        isinstance_def issubclass_def)
  have a: "IntItem_check_value (IntItem_init (PStr ''n'') PNone PNone PNone PNone (PBool True) (PStr []))
       (PInt 4) = Inr True"
    using IntItem_check_value_parity_exact [OF IntItem_init_props(5) valid, where i = 4] by simp
  have b: "IntItem_check_value (IntItem_init (PStr ''n'') PNone PNone PNone PNone (PBool True) (PStr []))
       (PInt 7) = Inr False"
    using IntItem_check_value_parity_exact [OF IntItem_init_props(5) valid, where i = 7] by simp
  have c: "IntItem_check_value (IntItem_init (PStr ''n'') PNone PNone PNone PNone (PBool False) (PStr []))
       (PInt (- 3)) = Inr True"
    using IntItem_check_value_parity_exact [OF IntItem_init_props(5) valid, where i = "- 3"] by simp
  have d: "IntItem_check_value (IntItem_init (PStr ''n'') PNone PNone PNone PNone PNone (PStr []))
       (PInt 7) = Inr True"
    using IntItem_check_value_parity_exact [OF IntItem_init_props(5) valid, where i = 7] by simp
  from a b c d show ?thesis by simp
qed

lemma NumericTypeItem_from_string_cases_witness:
  "NumericTypeItem_from_string (\<lambda>s. Inl NameError)
       (IntItem_init (PStr ''n'') PNone PNone PNone PNone PNone (PStr [])) ''e'' = PNone
   \<and> NumericTypeItem_from_string (\<lambda>s. Inr (EFloat (Finite (5 / 2))))
       (IntItem_init (PStr ''n'') PNone PNone PNone PNone PNone (PStr [])) ''2.5'' = PInt 2
   \<and> NumericTypeItem_from_string (\<lambda>s. Inr ETuple)
       (FloatItem_init (PStr ''x'') PNone PNone PNone PNone (PStr [])) ''()'' = PNone"
proof -
  have m: "re_match_numeric ''2.5''"
    by (simp add: re_match_numeric_def Let_def grammar_char_def)
  have fl: "\<lfloor>(5 :: rat) / 2\<rfloor> = 2"
    by (rule floor_unique) simp_all
  have a: "NumericTypeItem_from_string (\<lambda>s. Inl NameError)
       (IntItem_init (PStr ''n'') PNone PNone PNone PNone PNone (PStr [])) ''e'' = PNone"
    using NumericTypeItem_from_string_cases [where ev = "\<lambda>s. Inl NameError" and s = "''e''"]
    by blast
  have b: "NumericTypeItem_from_string (\<lambda>s. Inr (EFloat (Finite (5 / 2))))
       (IntItem_init (PStr ''n'') PNone PNone PNone PNone PNone (PStr [])) ''2.5'' = PInt 2"
    using NumericTypeItem_from_string_cases
        [where ev = "\<lambda>s. Inr (EFloat (Finite (5 / 2)))" and s = "''2.5''"
           and self = "IntItem_init (PStr ''n'') PNone PNone PNone PNone PNone (PStr [])",
         THEN conjunct2, THEN conjunct2, THEN conjunct2, THEN conjunct2, rule_format,
         of "EFloat (Finite (5 / 2))" "PInt 2"]
      m fl
    by (simp add: call_type_def IntItem_init_props(1) truncate_def mk_int_def maxint_def)
  have c: "NumericTypeItem_from_string (\<lambda>s. Inr ETuple)
       (FloatItem_init (PStr ''x'') PNone PNone PNone PNone (PStr [])) ''()'' = PNone"
    using NumericTypeItem_from_string_cases
        [where ev = "\<lambda>s. Inr ETuple" and s = "''()''"
           and self = "FloatItem_init (PStr ''x'') PNone PNone PNone PNone (PStr [])",
         THEN conjunct2, THEN conjunct2, THEN conjunct2, THEN conjunct1, rule_format, of ETuple]
    by (simp add: call_type_def FloatItem_init_props(1))
  from a b c show ?thesis by simp
qed

lemma NumericTypeItem_from_string_examples_witness:
  "NumericTypeItem_from_string (\<lambda>s. if s = ''2+2'' then Inr (EInt 4) else Inl SyntaxError)
       (IntItem_init (PStr ''n'') PNone PNone PNone PNone PNone (PStr [])) ''2+2'' = PInt 4
   \<and> NumericTypeItem_from_string (\<lambda>s. if s = ''2+2'' then Inr (EInt 4) else Inl SyntaxError)
       (IntItem_init (PStr ''n'') PNone PNone PNone PNone PNone (PStr [])) ''abc'' = PNone
   \<and> NumericTypeItem_from_string (\<lambda>s. if s = ''2+2'' then Inr (EInt 4) else Inl SyntaxError)
       (IntItem_init (PStr ''n'') PNone PNone PNone PNone PNone (PStr [])) [] = PNone"
  using NumericTypeItem_from_string_examples
      [where ev = "\<lambda>s. if s = ''2+2'' then Inr (EInt 4) else Inl SyntaxError"
         and self = "IntItem_init (PStr ''n'') PNone PNone PNone PNone PNone (PStr [])"]
  by simp

end
